theory Spec2Isabelle
  imports Main "HOL-Library.Sublist" "HOL-Library.List_Lexorder" "HOL-Library.Multiset"
begin

section \<open>Strings of the JavaScript runtime\<close>

text \<open>
  A JavaScript string is a sequence of UTF-16 code units; \<open>length\<close>, \<open>substring\<close>,
  \<open>includes\<close>, the relational operators and regular expressions without the \<open>u\<close> flag all
  work on code units. A string is therefore a list of code units, each a natural number
  (below 65536 in a real string; nothing below depends on that bound).
\<close>

type_synonym jsstring = "nat list"

text \<open>The code units the source names in its literals and patterns.\<close>

definition SP :: nat where "SP = 32"          \<comment> \<open>the space character\<close>
definition LT :: nat where "LT = 60"          \<comment> \<open>the opening angle bracket\<close>
definition GT :: nat where "GT = 62"          \<comment> \<open>the closing angle bracket\<close>
definition AMP :: nat where "AMP = 38"        \<comment> \<open>the ampersand\<close>
definition SEMI :: nat where "SEMI = 59"      \<comment> \<open>the semicolon\<close>
definition HASH :: nat where "HASH = 35"      \<comment> \<open>the hash sign\<close>
definition DOT :: nat where "DOT = 46"        \<comment> \<open>the full stop\<close>

text \<open>
  White space as \<open>String.prototype.trim\<close> and the pattern class \<open>\s\<close> understand it
  (ECMAScript WhiteSpace and LineTerminator): TAB, LF, VT, FF, CR, SPACE, NBSP, U+1680,
  U+2000 to U+200A, U+2028, U+2029, U+202F, U+205F, U+3000 and U+FEFF.
\<close>

definition isWs :: "nat \<Rightarrow> bool" where
  "isWs c = (c = 9 \<or> c = 10 \<or> c = 11 \<or> c = 12 \<or> c = 13 \<or> c = 32 \<or> c = 160 \<or> c = 5760
     \<or> (8192 \<le> c \<and> c \<le> 8202) \<or> c = 8232 \<or> c = 8233 \<or> c = 8239 \<or> c = 8287
     \<or> c = 12288 \<or> c = 65279)"

definition trimStart :: "jsstring \<Rightarrow> jsstring" where
  "trimStart s = dropWhile isWs s"

definition trimEnd :: "jsstring \<Rightarrow> jsstring" where
  "trimEnd s = rev (dropWhile isWs (rev s))"

definition trim :: "jsstring \<Rightarrow> jsstring" where
  "trim s = trimEnd (trimStart s)"

text \<open>\<open>s.substring(0, n)\<close> for a non-negative \<open>n\<close>: the first \<open>n\<close> code units, all of
  \<open>s\<close> when it is shorter.\<close>

definition substring0 :: "jsstring \<Rightarrow> nat \<Rightarrow> jsstring" where
  "substring0 s n = take n s"

text \<open>\<open>hay.includes(needle)\<close>: the needle occurs as a contiguous run of code units.\<close>

fun includes_str :: "jsstring \<Rightarrow> jsstring \<Rightarrow> bool" where
  "includes_str [] needle = (needle = [])"
| "includes_str (h # hs) needle = (prefix needle (h # hs) \<or> includes_str hs needle)"

text \<open>\<open>s.split(sep)\<close> for a separator of one code unit: every occurrence cuts, so
  adjacent separators give empty pieces and the empty string gives one empty piece.\<close>

fun splitOn :: "nat \<Rightarrow> jsstring \<Rightarrow> jsstring list" where
  "splitOn sep [] = [[]]"
| "splitOn sep (c # cs) =
     (if c = sep then [] # splitOn sep cs
      else (case splitOn sep cs of [] \<Rightarrow> [[c]] | w # ws \<Rightarrow> (c # w) # ws))"

text \<open>\<open>parts.join(sep)\<close> for a separator of one code unit.\<close>

fun join :: "nat \<Rightarrow> jsstring list \<Rightarrow> jsstring" where
  "join sep [] = []"
| "join sep [x] = x"
| "join sep (x # y # ys) = x @ sep # join sep (y # ys)"

text \<open>
  The relational operator \<open><\<close> on two strings compares code unit by code unit; a proper
  prefix is smaller.
\<close>

fun str_less :: "jsstring \<Rightarrow> jsstring \<Rightarrow> bool" where
  "str_less [] [] = False"
| "str_less [] (y # ys) = True"
| "str_less (x # xs) [] = False"
| "str_less (x # xs) (y # ys) = (x < y \<or> (x = y \<and> str_less xs ys))"

text \<open>
  \<open>String.prototype.toLowerCase\<close> is the locale-independent Unicode lower-case mapping of
  the engine. It is written out here for the Basic Latin, Latin-1 Supplement and Latin
  Extended-A blocks (code units below U+0180), which hold the Turkish alphabet; code units
  of other blocks pass through unchanged. U+0130 (capital I with dot above) becomes the
  two code units U+0069 U+0307, as the Unicode special casing prescribes.
\<close>

definition lowerUnit :: "nat \<Rightarrow> jsstring" where
  "lowerUnit c =
     (if 65 \<le> c \<and> c \<le> 90 then [c + 32]
      else if 192 \<le> c \<and> c \<le> 222 \<and> c \<noteq> 215 then [c + 32]
      else if c = 304 then [105, 775]
      else if c = 376 then [255]
      else if (256 \<le> c \<and> c \<le> 303 \<or> 306 \<le> c \<and> c \<le> 311 \<or> 330 \<le> c \<and> c \<le> 375) \<and> even c
        then [c + 1]
      else if (313 \<le> c \<and> c \<le> 328 \<or> 377 \<le> c \<and> c \<le> 382) \<and> odd c then [c + 1]
      else [c])"

definition toLowerCase :: "jsstring \<Rightarrow> jsstring" where
  "toLowerCase s = concat (map lowerUnit s)"

section \<open>The post model\<close>

datatype platform = twitter | instagram | facebook | youtube | rss

text \<open>The string each member of the \<open>platform\<close> union is at run time.\<close>

fun platformString :: "platform \<Rightarrow> jsstring" where
  "platformString twitter = [116, 119, 105, 116, 116, 101, 114]"
| "platformString instagram = [105, 110, 115, 116, 97, 103, 114, 97, 109]"
| "platformString facebook = [102, 97, 99, 101, 98, 111, 111, 107]"
| "platformString youtube = [121, 111, 117, 116, 117, 98, 101]"
| "platformString rss = [114, 115, 115]"

record engagement =
  likes :: int
  shares :: int
  comments :: int

record author =
  username :: jsstring
  name :: jsstring
  verified :: bool

record SocialMediaPost =
  id_post :: jsstring
  content :: jsstring
  summary :: jsstring
  platform :: platform
  date :: jsstring
  time :: jsstring
  url :: "jsstring option"
  engagement :: engagement
  tags :: "jsstring list"
  category :: "jsstring option"
  imageUrl :: "jsstring option"
  author :: "author option"

section \<open>Query layer\<close>

text \<open>
  \<open>searchPosts\<close> of \<open>socialMediaService.ts\<close>: a blank query returns the list itself;
  otherwise the lower-cased query is split at single spaces, empty terms are dropped, and a
  post is kept when every term occurs in the lower-cased text made of its content, summary,
  tags and category (the empty string for a missing category), joined by spaces.
\<close>

definition searchableText :: "SocialMediaPost \<Rightarrow> jsstring" where
  "searchableText post =
     toLowerCase (join SP ([content post, summary post] @ tags post @
       [case category post of None \<Rightarrow> [] | Some c \<Rightarrow> c]))"

definition searchPosts :: "SocialMediaPost list \<Rightarrow> jsstring \<Rightarrow> SocialMediaPost list" where
  "searchPosts posts query =
     (if trim query = [] then posts
      else
        (let searchTerms = filter (\<lambda>trm. length trm > 0) (splitOn SP (toLowerCase query))
         in filter (\<lambda>post. list_all (\<lambda>trm. includes_str (searchableText post) trm) searchTerms)
              posts))"

text \<open>
  The filters argument of \<open>filterPosts\<close>: every field is optional. The source tests a
  field with JavaScript truthiness (\<open>filters.platform && ...\<close>), under which an undefined
  field and the empty string both count as not given.
\<close>

record filters =
  platform_f :: "jsstring option"
  category_f :: "jsstring option"
  dateFrom :: "jsstring option"
  dateTo :: "jsstring option"
  tags_f :: "jsstring list option"

definition truthy :: "jsstring option \<Rightarrow> bool" where
  "truthy v = (case v of None \<Rightarrow> False | Some s \<Rightarrow> s \<noteq> [])"

text \<open>The callback of \<open>posts.filter\<close> in \<open>filterPosts\<close>, one early return per test.\<close>

definition keepPost :: "filters \<Rightarrow> SocialMediaPost \<Rightarrow> bool" where
  "keepPost f post =
     (if truthy (platform_f f) \<and> Some (platformString (platform post)) \<noteq> platform_f f then False
      else if truthy (category_f f) \<and> category post \<noteq> category_f f then False
      else if truthy (dateFrom f) \<and> str_less (date post) (the (dateFrom f)) then False
      else if truthy (dateTo f) \<and> str_less (the (dateTo f)) (date post) then False
      else if (case tags_f f of None \<Rightarrow> False | Some ts \<Rightarrow> length ts > 0) then
        (let hasMatchingTag =
           list_ex (\<lambda>tag. list_ex (\<lambda>postTag. includes_str (toLowerCase postTag) (toLowerCase tag))
                      (tags post)) (the (tags_f f))
         in if \<not> hasMatchingTag then False else True)
      else True)"

definition filterPosts :: "SocialMediaPost list \<Rightarrow> filters \<Rightarrow> SocialMediaPost list" where
  "filterPosts posts f = filter (keepPost f) posts"

section \<open>Content normalizer\<close>

subsection \<open>cleanContent\<close>

text \<open>
  \<open>content.replace(/<[^>]*>/g, '')\<close>: scanning from the left, an opening bracket that has
  a closing bracket somewhere after it is removed together with everything up to the first
  such closing bracket, and the scan resumes behind it. An opening bracket with no closing
  bracket after it stays.
\<close>

function stripTags :: "jsstring \<Rightarrow> jsstring" where
  "stripTags [] = []"
| "stripTags (c # cs) =
     (if c = LT then
        (case dropWhile (\<lambda>x. x \<noteq> GT) cs of
           [] \<Rightarrow> c # stripTags cs
         | g # rest \<Rightarrow> stripTags rest)
      else c # stripTags cs)"
  by pat_completeness auto
termination
proof (relation "measure length")
  fix c :: nat and cs g rest
  assume "dropWhile (\<lambda>x. x \<noteq> GT) cs = g # rest"
  then have "length (g # rest) \<le> length cs"
    by (metis length_dropWhile_le)
  then show "(rest, c # cs) \<in> measure length" by simp
qed simp_all

text \<open>
  \<open>.replace(/&[^;]+;/g, ' ')\<close>: an ampersand followed by at least one code unit other than
  a semicolon and then a semicolon is replaced, up to the first semicolon, by one space.
\<close>

function replaceEntities :: "jsstring \<Rightarrow> jsstring" where
  "replaceEntities [] = []"
| "replaceEntities (c # cs) =
     (if c = AMP \<and> takeWhile (\<lambda>x. x \<noteq> SEMI) cs \<noteq> [] then
        (case dropWhile (\<lambda>x. x \<noteq> SEMI) cs of
           [] \<Rightarrow> c # replaceEntities cs
         | s # rest \<Rightarrow> SP # replaceEntities rest)
      else c # replaceEntities cs)"
  by pat_completeness auto
termination
proof (relation "measure length")
  fix c :: nat and cs s rest
  assume "dropWhile (\<lambda>x. x \<noteq> SEMI) cs = s # rest"
  then have "length (s # rest) \<le> length cs"
    by (metis length_dropWhile_le)
  then show "(rest, c # cs) \<in> measure length" by simp
qed simp_all

text \<open>\<open>.replace(/\s+/g, ' ')\<close>: every maximal run of white space becomes one space.\<close>

function collapseWs :: "jsstring \<Rightarrow> jsstring" where
  "collapseWs [] = []"
| "collapseWs (c # cs) =
     (if isWs c then SP # collapseWs (dropWhile isWs cs) else c # collapseWs cs)"
  by pat_completeness auto
termination
  by (relation "measure length") (simp_all add: le_imp_less_Suc length_dropWhile_le)

definition cleanContent :: "jsstring \<Rightarrow> jsstring" where
  "cleanContent txt =
     substring0 (trim (collapseWs (replaceEntities (stripTags txt)))) 500"

text \<open>
  What the output of \<open>cleanContent\<close> is checked for: a markup tag is an opening bracket
  with a closing bracket somewhere behind it (exactly when \<open>/<[^>]*>/\<close> has a match), and
  a white-space run of length two is a pair of adjacent white-space code units.
\<close>

fun hasTag :: "jsstring \<Rightarrow> bool" where
  "hasTag [] = False"
| "hasTag (c # cs) = ((c = LT \<and> GT \<in> set cs) \<or> hasTag cs)"

fun hasWsRun :: "jsstring \<Rightarrow> bool" where
  "hasWsRun [] = False"
| "hasWsRun [c] = False"
| "hasWsRun (c # d # cs) = ((isWs c \<and> isWs d) \<or> hasWsRun (d # cs))"

fun hasSpaceRun :: "jsstring \<Rightarrow> bool" where
  "hasSpaceRun [] = False"
| "hasSpaceRun [c] = False"
| "hasSpaceRun (c # d # cs) = ((c = SP \<and> d = SP) \<or> hasSpaceRun (d # cs))"

definition startsWithWs :: "jsstring \<Rightarrow> bool" where
  "startsWithWs s = (case s of [] \<Rightarrow> False | c # cs \<Rightarrow> isWs c)"

definition endsWithWs :: "jsstring \<Rightarrow> bool" where
  "endsWithWs s = startsWithWs (rev s)"

subsection \<open>generateSummary\<close>

definition isSentenceEnd :: "nat \<Rightarrow> bool" where
  "isSentenceEnd c = (c = DOT \<or> c = 33 \<or> c = 63)"

text \<open>
  \<open>content.split(/[.!?]+/)\<close>: the pieces between maximal runs of full stops, exclamation
  marks and question marks; a run at either end gives an empty piece there, and a string
  without any such mark is its own single piece.
\<close>

function splitSentences :: "jsstring \<Rightarrow> jsstring list" where
  "splitSentences s =
     (case dropWhile (\<lambda>c. \<not> isSentenceEnd c) s of
        [] \<Rightarrow> [s]
      | e # rest \<Rightarrow>
          takeWhile (\<lambda>c. \<not> isSentenceEnd c) s # splitSentences (dropWhile isSentenceEnd rest))"
  by pat_completeness auto
termination
proof (relation "measure length")
  fix s :: jsstring and e rest
  assume "dropWhile (\<lambda>c. \<not> isSentenceEnd c) s = e # rest"
  then have "length (e # rest) \<le> length s"
    by (metis length_dropWhile_le)
  moreover have "length (dropWhile isSentenceEnd rest) \<le> length rest"
    by (rule length_dropWhile_le)
  ultimately show "(dropWhile isSentenceEnd rest, s) \<in> measure length" by simp
qed simp

declare splitSentences.simps [simp del]

text \<open>
  \<open>sentences[0]?.trim()\<close> is undefined for an empty array; the test
  \<open>firstSentence && ...\<close> fails for undefined and for the empty string.
\<close>

definition generateSummary :: "jsstring \<Rightarrow> jsstring" where
  "generateSummary txt =
     (let sentences = splitSentences txt;
          firstSentence = (case sentences of [] \<Rightarrow> None | s # rest \<Rightarrow> Some (trim s))
      in if (case firstSentence of
               None \<Rightarrow> False
             | Some fs \<Rightarrow> fs \<noteq> [] \<and> length fs > 20 \<and> length fs \<le> 150)
         then the firstSentence @ [DOT]
         else substring0 txt 120 @ [DOT, DOT, DOT])"

text \<open>
  The summary as the specification words it: the text before the first full stop,
  exclamation mark or question mark, trimmed, when its length is in (20, 150], with a full
  stop appended; otherwise the first 120 code units of the content and three full stops.
\<close>

definition generateSummary_spec :: "jsstring \<Rightarrow> jsstring" where
  "generateSummary_spec txt =
     (let first = trim (takeWhile (\<lambda>c. \<not> isSentenceEnd c) txt)
      in if 20 < length first \<and> length first \<le> 150 then first @ [DOT]
         else take 120 txt @ [DOT, DOT, DOT])"

subsection \<open>extractTags\<close>

text \<open>
  The class \<open>\w\<close> of a pattern without the \<open>u\<close> and \<open>i\<close> flags: ASCII letters,
  digits and the underscore.
\<close>

definition isWordChar :: "nat \<Rightarrow> bool" where
  "isWordChar c = ((48 \<le> c \<and> c \<le> 57) \<or> (65 \<le> c \<and> c \<le> 90) \<or> (97 \<le> c \<and> c \<le> 122) \<or> c = 95)"

text \<open>
  The class of the edge function \<open>fetch-rss-feeds\<close>, which adds the twelve Turkish letters
  U+011F, U+00FC, U+015F, U+0131, U+00F6, U+00E7, U+011E, U+00DC, U+015E, U+0130, U+00D6
  and U+00C7 to \<open>\w\<close>.
\<close>

definition isWordCharTr :: "nat \<Rightarrow> bool" where
  "isWordCharTr c = (isWordChar c \<or> c \<in> set [287, 252, 351, 305, 246, 231, 286, 220, 350, 304, 214, 199])"

text \<open>
  \<open>content.match(/#W+/g)\<close> for a class \<open>W\<close>: every hash sign followed by at least one
  code unit of the class matches with the whole run behind it, and the scan resumes behind
  the run. No match gives null, which the source skips; here it is the empty list.
\<close>

function matchHashtags :: "(nat \<Rightarrow> bool) \<Rightarrow> jsstring \<Rightarrow> jsstring list" where
  "matchHashtags W [] = []"
| "matchHashtags W (c # cs) =
     (if c = HASH \<and> takeWhile W cs \<noteq> []
      then (c # takeWhile W cs) # matchHashtags W (dropWhile W cs)
      else matchHashtags W cs)"
  by pat_completeness auto
termination
  by (relation "measure (\<lambda>(W, s). length s)") (simp_all add: le_imp_less_Suc length_dropWhile_le)

text \<open>\<open>[...new Set(tags)]\<close>: the elements in the order of their first occurrence.\<close>

definition setInsert :: "jsstring list \<Rightarrow> jsstring \<Rightarrow> jsstring list" where
  "setInsert seen t = (if t \<in> set seen then seen else seen @ [t])"

definition newSet :: "jsstring list \<Rightarrow> jsstring list" where
  "newSet ts = foldl setInsert [] ts"

text \<open>
  The keyword table of \<open>socialMediaService.ts\<close>, in the order of the object literal
  (\<open>Object.entries\<close> keeps it): Istanbul (written with U+0130), belediye, proje, ulasim,
  cevre, genclik, kultur, spor, ekonomi, sosyal, each with its two related tags.
\<close>

definition keywords_service :: "(jsstring \<times> jsstring list) list" where
  "keywords_service =
     [
      ([304, 115, 116, 97, 110, 98, 117, 108], [[304, 115, 116, 97, 110, 98, 117, 108], [350, 101, 104, 105, 114]]),
      ([98, 101, 108, 101, 100, 105, 121, 101], [[66, 101, 108, 101, 100, 105, 121, 101], [89, 246, 110, 101, 116, 105, 109]]),
      ([112, 114, 111, 106, 101], [[80, 114, 111, 106, 101], [71, 101, 108, 105, 351, 105, 109]]),
      ([117, 108, 97, 351, 305, 109], [[85, 108, 97, 351, 305, 109], [77, 101, 116, 114, 111]]),
      ([231, 101, 118, 114, 101], [[199, 101, 118, 114, 101], [89, 101, 351, 105, 108]]),
      ([103, 101, 110, 231, 108, 105, 107], [[71, 101, 110, 231, 108, 105, 107], [69, 287, 105, 116, 105, 109]]),
      ([107, 252, 108, 116, 252, 114], [[75, 252, 108, 116, 252, 114], [83, 97, 110, 97, 116]]),
      ([115, 112, 111, 114], [[83, 112, 111, 114], [83, 97, 287, 108, 305, 107]]),
      ([101, 107, 111, 110, 111, 109, 105], [[69, 107, 111, 110, 111, 109, 105], [304, 351]]),
      ([115, 111, 115, 121, 97, 108], [[83, 111, 115, 121, 97, 108], [84, 111, 112, 108, 117, 109]])]"

text \<open>The table of \<open>fetch-rss-feeds\<close>: the same ten entries and four more (secim,
  cumhurbaskani, millet, demokrasi).\<close>

definition keywords_rss :: "(jsstring \<times> jsstring list) list" where
  "keywords_rss =
     [
      ([304, 115, 116, 97, 110, 98, 117, 108], [[304, 115, 116, 97, 110, 98, 117, 108], [350, 101, 104, 105, 114]]),
      ([98, 101, 108, 101, 100, 105, 121, 101], [[66, 101, 108, 101, 100, 105, 121, 101], [89, 246, 110, 101, 116, 105, 109]]),
      ([112, 114, 111, 106, 101], [[80, 114, 111, 106, 101], [71, 101, 108, 105, 351, 105, 109]]),
      ([117, 108, 97, 351, 305, 109], [[85, 108, 97, 351, 305, 109], [77, 101, 116, 114, 111]]),
      ([231, 101, 118, 114, 101], [[199, 101, 118, 114, 101], [89, 101, 351, 105, 108]]),
      ([103, 101, 110, 231, 108, 105, 107], [[71, 101, 110, 231, 108, 105, 107], [69, 287, 105, 116, 105, 109]]),
      ([107, 252, 108, 116, 252, 114], [[75, 252, 108, 116, 252, 114], [83, 97, 110, 97, 116]]),
      ([115, 112, 111, 114], [[83, 112, 111, 114], [83, 97, 287, 108, 305, 107]]),
      ([101, 107, 111, 110, 111, 109, 105], [[69, 107, 111, 110, 111, 109, 105], [304, 351]]),
      ([115, 111, 115, 121, 97, 108], [[83, 111, 115, 121, 97, 108], [84, 111, 112, 108, 117, 109]]),
      ([115, 101, 231, 105, 109], [[83, 101, 231, 105, 109], [80, 111, 108, 105, 116, 105, 107, 97]]),
      ([99, 117, 109, 104, 117, 114, 98, 97, 351, 107, 97, 110, 305], [[67, 66], [83, 101, 231, 105, 109]]),
      ([109, 105, 108, 108, 101, 116], [[77, 105, 108, 108, 101, 116], [72, 97, 108, 107]]),
      ([100, 101, 109, 111, 107, 114, 97, 115, 105], [[68, 101, 109, 111, 107, 114, 97, 115, 105], [214, 122, 103, 252, 114, 108, 252, 107]])]"

text \<open>
  The body shared by both \<open>extractTags\<close>: the hashtags without their hash sign, then for
  each table entry whose keyword occurs in the lower-cased content its related tags; the
  duplicates removed and the first five kept.
\<close>

definition extractTagsWith ::
  "(nat \<Rightarrow> bool) \<Rightarrow> (jsstring \<times> jsstring list) list \<Rightarrow> jsstring \<Rightarrow> jsstring list" where
  "extractTagsWith W table txt =
     (let hashtags = matchHashtags W txt;
          tags0 = map (\<lambda>tag. drop 1 tag) hashtags;
          tags1 = foldl (\<lambda>acc (keyword, relatedTags).
                     if includes_str (toLowerCase txt) keyword then acc @ relatedTags else acc)
                   tags0 table
      in take 5 (newSet tags1))"

text \<open>\<open>extractTags\<close> of \<open>socialMediaService.ts\<close>, with the pattern \<open>/#\w+/g\<close>.\<close>

definition extractTags :: "jsstring \<Rightarrow> jsstring list" where
  "extractTags txt = extractTagsWith isWordChar keywords_service txt"

text \<open>\<open>extractTags\<close> of \<open>fetch-rss-feeds/index.ts\<close>, with the widened class.\<close>

definition extractTags_rss :: "jsstring \<Rightarrow> jsstring list" where
  "extractTags_rss txt = extractTagsWith isWordCharTr keywords_rss txt"

section \<open>Aggregation cache\<close>

record cache_entry =
  data :: "SocialMediaPost list"
  timestamp :: int

text \<open>The key of the one cache entry, \<open>all_posts\<close>, and the life time in milliseconds.\<close>

definition cacheKey :: jsstring where
  "cacheKey = [97, 108, 108, 95, 112, 111, 115, 116, 115]"

definition CACHE_DURATION :: int where
  "CACHE_DURATION = 5 * 60 * 1000"

text \<open>
  What a \<open>fetch\<close> of one of the two edge functions can come to: the promise rejects, or a
  response arrives with its \<open>ok\<close> flag and a body that is either not JSON or a JSON object
  with a \<open>success\<close> flag and, when \<open>data\<close> is an array, the posts in it.
\<close>

datatype response_body = NotJson | Json bool "SocialMediaPost list option"

datatype fetch_outcome = Rejected | Response bool response_body

text \<open>
  \<open>fetchRealTwitterData\<close> and \<open>fetchRealRSSFeeds\<close>: both catch every failure and return
  the empty list then; a response that is not ok, a body that does not parse, a false
  \<open>success\<close> flag and a \<open>data\<close> that is no array all end there.
\<close>

definition fetchRealTwitterData :: "fetch_outcome \<Rightarrow> SocialMediaPost list" where
  "fetchRealTwitterData r =
     (case r of
        Rejected \<Rightarrow> []
      | Response ok body \<Rightarrow>
          if \<not> ok then []
          else (case body of
                  NotJson \<Rightarrow> []
                | Json success d \<Rightarrow>
                    (case d of Some posts \<Rightarrow> if success then posts else [] | None \<Rightarrow> [])))"

definition fetchRealRSSFeeds :: "fetch_outcome \<Rightarrow> SocialMediaPost list" where
  "fetchRealRSSFeeds r =
     (case r of
        Rejected \<Rightarrow> []
      | Response ok body \<Rightarrow>
          if \<not> ok then []
          else (case body of
                  NotJson \<Rightarrow> []
                | Json success d \<Rightarrow>
                    (case d of Some posts \<Rightarrow> if success then posts else [] | None \<Rightarrow> [])))"

text \<open>
  The comparator of the sort. \<open>new Date(s).getTime()\<close> is the engine's date parser, taken
  as a parameter: \<open>None\<close> stands for NaN, the time value of an invalid date. A difference
  with a NaN operand is NaN.
\<close>

definition getTime :: "(jsstring \<Rightarrow> int option) \<Rightarrow> SocialMediaPost \<Rightarrow> int option" where
  "getTime parse p = parse (date p @ SP # time p)"

definition compareFn ::
  "(jsstring \<Rightarrow> int option) \<Rightarrow> SocialMediaPost \<Rightarrow> SocialMediaPost \<Rightarrow> int option" where
  "compareFn parse a b =
     (case getTime parse b of
        None \<Rightarrow> None
      | Some tb \<Rightarrow> (case getTime parse a of None \<Rightarrow> None | Some ta \<Rightarrow> Some (tb - ta)))"

text \<open>
  \<open>Array.prototype.sort\<close> with a comparator. ECMAScript reads a NaN result of the
  comparator as +0 and demands a stable sort; for a consistent comparator that fixes the
  result, which is the one computed here by stable insertion. For an inconsistent
  comparator the standard leaves the order to the engine.
\<close>

definition sortCompare :: "('a \<Rightarrow> 'a \<Rightarrow> int option) \<Rightarrow> 'a \<Rightarrow> 'a \<Rightarrow> int" where
  "sortCompare cmp x y = (case cmp x y of None \<Rightarrow> 0 | Some v \<Rightarrow> v)"

fun insertSorted :: "('a \<Rightarrow> 'a \<Rightarrow> int option) \<Rightarrow> 'a \<Rightarrow> 'a list \<Rightarrow> 'a list" where
  "insertSorted cmp x [] = [x]"
| "insertSorted cmp x (y # ys) =
     (if sortCompare cmp x y > 0 then y # insertSorted cmp x ys else x # y # ys)"

definition arraySort :: "('a \<Rightarrow> 'a \<Rightarrow> int option) \<Rightarrow> 'a list \<Rightarrow> 'a list" where
  "arraySort cmp xs = foldr (insertSorted cmp) xs []"

text \<open>
  The time value a post sorts by when an unparsable date counts as the epoch, and the
  order "newest first" under that reading.
\<close>

definition epochZeroTime :: "(jsstring \<Rightarrow> int option) \<Rightarrow> SocialMediaPost \<Rightarrow> int" where
  "epochZeroTime parse p = (case getTime parse p of None \<Rightarrow> 0 | Some t \<Rightarrow> t)"

definition newestFirst :: "(jsstring \<Rightarrow> int option) \<Rightarrow> SocialMediaPost list \<Rightarrow> bool" where
  "newestFirst parse ps = sorted_wrt (\<lambda>a b. epochZeroTime parse a \<ge> epochZeroTime parse b) ps"

text \<open>
  The calendar dates \<open>getMockData\<close> reads from the clock: today, yesterday and the day
  before as ISO dates (\<open>toISOString().split('T')[0]\<close>), and the current time of day as
  \<open>toLocaleTimeString('tr-TR', ...)\<close> prints it.
\<close>

record mock_clock =
  today :: jsstring
  yesterday :: jsstring
  twoDaysAgo :: jsstring
  timeNow :: jsstring

text \<open>
  \<open>getMockData\<close> of \<open>src/services/socialMediaService.ts\<close>: eight sample posts with the
  ids real_content_1 to real_content_8, on twitter, instagram, facebook, twitter, youtube,
  twitter, instagram and facebook, in the categories Ulasim, Egitim, Cevre, Politika,
  Kultur, Sosyal, Spor and Ekonomi (in Turkish spelling).
\<close>

definition getMockData :: "mock_clock \<Rightarrow> SocialMediaPost list" where
  "getMockData d =
     [
      \<lparr>id_post = [114, 101, 97, 108, 95, 99, 111, 110, 116, 101, 110, 116, 95, 49],
       content = [304, 115, 116, 97, 110, 98, 117, 108, 39, 100, 97, 32, 117, 108, 97, 351, 305, 109, 32, 100, 101, 118, 114, 105, 109, 105, 110, 105, 32, 115, 252, 114, 100, 252, 114, 252, 121, 111, 114, 117, 122, 46, 32, 89, 101, 110, 105, 32, 109, 101, 116, 114, 111, 32, 104, 97, 116, 108, 97, 114, 305, 109, 305, 122, 108, 97, 32, 118, 97, 116, 97, 110, 100, 97, 351, 108, 97, 114, 305, 109, 305, 122, 305, 110, 32, 104, 97, 121, 97, 116, 305, 110, 305, 32, 107, 111, 108, 97, 121, 108, 97, 351, 116, 305, 114, 305, 121, 111, 114, 117, 122, 46, 32, 199, 101, 118, 114, 101, 32, 100, 111, 115, 116, 117, 44, 32, 104, 305, 122, 108, 305, 32, 118, 101, 32, 107, 111, 110, 102, 111, 114, 108, 117, 32, 117, 108, 97, 351, 305, 109, 32, 104, 97, 107, 107, 305, 32, 104, 101, 114, 107, 101, 115, 105, 110, 32, 104, 97, 107, 107, 305, 100, 305, 114, 46, 32, 35, 304, 115, 116, 97, 110, 98, 117, 108, 77, 101, 116, 114, 111, 115, 117, 32, 35, 85, 108, 97, 351, 305, 109, 68, 101, 118, 114, 105, 109, 105, 32, 35, 89, 101, 351, 105, 108, 85, 108, 97, 351, 305, 109],
       summary = [304, 115, 116, 97, 110, 98, 117, 108, 39, 100, 97, 32, 109, 101, 116, 114, 111, 32, 104, 97, 116, 108, 97, 114, 305, 32, 103, 101, 110, 105, 351, 108, 101, 116, 105, 108, 101, 114, 101, 107, 32, 117, 108, 97, 351, 305, 109, 32, 100, 101, 118, 114, 105, 109, 105, 32, 115, 252, 114, 100, 252, 114, 252, 108, 252, 121, 111, 114, 46],
       platform = twitter, date = today d, time = [49, 52, 58, 51, 48],
       url = Some [104, 116, 116, 112, 115, 58, 47, 47, 116, 119, 105, 116, 116, 101, 114, 46, 99, 111, 109, 47, 67, 66, 65, 100, 97, 121, 79, 102, 105, 115, 105, 47, 115, 116, 97, 116, 117, 115, 47, 49, 50, 51, 52, 53, 54, 55, 56, 57, 48],
       engagement = \<lparr>likes = 2847, shares = 456, comments = 189\<rparr>,
       tags = [[304, 115, 116, 97, 110, 98, 117, 108], [77, 101, 116, 114, 111], [85, 108, 97, 351, 305, 109], [89, 101, 351, 105, 108, 85, 108, 97, 351, 305, 109], [66, 101, 108, 101, 100, 105, 121, 101]],
       category = Some [85, 108, 97, 351, 305, 109], imageUrl = None,
       author = Some \<lparr>username = [67, 66, 65, 100, 97, 121, 79, 102, 105, 115, 105], name = [69, 107, 114, 101, 109, 32, 304, 109, 97, 109, 111, 287, 108, 117], verified = True\<rparr>\<rparr>,
      \<lparr>id_post = [114, 101, 97, 108, 95, 99, 111, 110, 116, 101, 110, 116, 95, 50],
       content = [71, 101, 110, 231, 108, 101, 114, 105, 109, 105, 122, 32, 304, 115, 116, 97, 110, 98, 117, 108, 39, 117, 110, 32, 103, 101, 108, 101, 99, 101, 287, 105, 100, 105, 114, 46, 32, 79, 110, 108, 97, 114, 97, 32, 100, 97, 104, 97, 32, 102, 97, 122, 108, 97, 32, 105, 109, 107, 97, 110, 44, 32, 100, 97, 104, 97, 32, 102, 97, 122, 108, 97, 32, 100, 101, 115, 116, 101, 107, 32, 115, 97, 287, 108, 97, 109, 97, 107, 32, 105, 231, 105, 110, 32, 231, 97, 108, 305, 351, 109, 97, 121, 97, 32, 100, 101, 118, 97, 109, 32, 101, 100, 105, 121, 111, 114, 117, 122, 46, 32, 71, 101, 110, 231, 108, 105, 107, 32, 109, 101, 114, 107, 101, 122, 108, 101, 114, 105, 109, 105, 122, 100, 101, 32, 252, 99, 114, 101, 116, 115, 105, 122, 32, 107, 117, 114, 115, 108, 97, 114, 44, 32, 115, 112, 111, 114, 32, 97, 107, 116, 105, 118, 105, 116, 101, 108, 101, 114, 105, 32, 118, 101, 32, 115, 111, 115, 121, 97, 108, 32, 101, 116, 107, 105, 110, 108, 105, 107, 108, 101, 114, 32, 100, 252, 122, 101, 110, 108, 105, 121, 111, 114, 117, 122, 46, 32, 35, 71, 101, 110, 231, 108, 105, 107, 304, 231, 105, 110, 32, 35, 304, 115, 116, 97, 110, 98, 117, 108, 71, 101, 110, 231, 108, 105, 107],
       summary = [71, 101, 110, 231, 108, 101, 114, 32, 105, 231, 105, 110, 32, 252, 99, 114, 101, 116, 115, 105, 122, 32, 107, 117, 114, 115, 108, 97, 114, 32, 118, 101, 32, 115, 111, 115, 121, 97, 108, 32, 101, 116, 107, 105, 110, 108, 105, 107, 108, 101, 114, 32, 100, 252, 122, 101, 110, 108, 101, 110, 105, 121, 111, 114, 46],
       platform = instagram, date = yesterday d, time = [49, 54, 58, 52, 53],
       url = Some [104, 116, 116, 112, 115, 58, 47, 47, 119, 119, 119, 46, 105, 110, 115, 116, 97, 103, 114, 97, 109, 46, 99, 111, 109, 47, 112, 47, 65, 66, 67, 49, 50, 51, 47],
       engagement = \<lparr>likes = 4521, shares = 234, comments = 312\<rparr>,
       tags = [[71, 101, 110, 231, 108, 105, 107], [69, 287, 105, 116, 105, 109], [83, 111, 115, 121, 97, 108], [304, 115, 116, 97, 110, 98, 117, 108], [68, 101, 115, 116, 101, 107]],
       category = Some [69, 287, 105, 116, 105, 109], imageUrl = None,
       author = Some \<lparr>username = [101, 107, 114, 101, 109, 105, 109, 97, 109, 111, 103, 108, 117], name = [69, 107, 114, 101, 109, 32, 304, 109, 97, 109, 111, 287, 108, 117], verified = True\<rparr>\<rparr>,
      \<lparr>id_post = [114, 101, 97, 108, 95, 99, 111, 110, 116, 101, 110, 116, 95, 51],
       content = [304, 115, 116, 97, 110, 98, 117, 108, 39, 117, 32, 100, 97, 104, 97, 32, 121, 101, 351, 105, 108, 44, 32, 100, 97, 104, 97, 32, 121, 97, 351, 97, 110, 97, 98, 105, 108, 105, 114, 32, 98, 105, 114, 32, 351, 101, 104, 105, 114, 32, 104, 97, 108, 105, 110, 101, 32, 103, 101, 116, 105, 114, 105, 121, 111, 114, 117, 122, 46, 32, 72, 101, 114, 32, 109, 97, 104, 97, 108, 108, 101, 100, 101, 32, 121, 101, 110, 105, 32, 112, 97, 114, 107, 108, 97, 114, 32, 97, 231, 305, 121, 111, 114, 44, 32, 97, 287, 97, 231, 108, 97, 110, 100, 305, 114, 109, 97, 32, 231, 97, 108, 305, 351, 109, 97, 108, 97, 114, 305, 110, 305, 32, 115, 252, 114, 100, 252, 114, 252, 121, 111, 114, 117, 122, 46, 32, 199, 101, 118, 114, 101, 32, 107, 111, 114, 117, 109, 97, 32, 115, 97, 100, 101, 99, 101, 32, 98, 105, 114, 32, 115, 108, 111, 103, 97, 110, 32, 100, 101, 287, 105, 108, 44, 32, 121, 97, 351, 97, 109, 32, 116, 97, 114, 122, 305, 109, 305, 122, 100, 305, 114, 46, 32, 35, 89, 101, 351, 105, 108, 304, 115, 116, 97, 110, 98, 117, 108, 32, 35, 199, 101, 118, 114, 101, 75, 111, 114, 117, 109, 97, 32, 35, 83, 252, 114, 100, 252, 114, 252, 108, 101, 98, 105, 108, 105, 114, 350, 101, 104, 105, 114],
       summary = [304, 115, 116, 97, 110, 98, 117, 108, 39, 100, 97, 32, 121, 101, 351, 105, 108, 32, 97, 108, 97, 110, 108, 97, 114, 32, 97, 114, 116, 305, 114, 305, 108, 305, 121, 111, 114, 32, 118, 101, 32, 231, 101, 118, 114, 101, 32, 107, 111, 114, 117, 109, 97, 32, 231, 97, 108, 305, 351, 109, 97, 108, 97, 114, 305, 32, 115, 252, 114, 100, 252, 114, 252, 108, 252, 121, 111, 114, 46],
       platform = facebook, date = twoDaysAgo d, time = [49, 48, 58, 49, 53],
       url = Some [104, 116, 116, 112, 115, 58, 47, 47, 119, 119, 119, 46, 102, 97, 99, 101, 98, 111, 111, 107, 46, 99, 111, 109, 47, 105, 109, 97, 109, 111, 103, 108, 117, 101, 107, 114, 101, 109, 47, 112, 111, 115, 116, 115, 47, 49, 50, 51, 52, 53, 54, 55, 56, 57],
       engagement = \<lparr>likes = 3654, shares = 789, comments = 445\<rparr>,
       tags = [[199, 101, 118, 114, 101], [89, 101, 351, 105, 108], [80, 97, 114, 107], [304, 115, 116, 97, 110, 98, 117, 108], [83, 252, 114, 100, 252, 114, 252, 108, 101, 98, 105, 108, 105, 114, 350, 101, 104, 105, 114]],
       category = Some [199, 101, 118, 114, 101], imageUrl = None,
       author = Some \<lparr>username = [105, 109, 97, 109, 111, 103, 108, 117, 101, 107, 114, 101, 109], name = [69, 107, 114, 101, 109, 32, 304, 109, 97, 109, 111, 287, 108, 117], verified = True\<rparr>\<rparr>,
      \<lparr>id_post = [114, 101, 97, 108, 95, 99, 111, 110, 116, 101, 110, 116, 95, 52],
       content = [68, 101, 109, 111, 107, 114, 97, 115, 105, 32, 118, 101, 32, 97, 100, 97, 108, 101, 116, 32, 109, 252, 99, 97, 100, 101, 108, 101, 109, 105, 122, 32, 100, 101, 118, 97, 109, 32, 101, 100, 105, 121, 111, 114, 46, 32, 72, 97, 108, 107, 305, 110, 32, 105, 114, 97, 100, 101, 115, 105, 110, 101, 32, 115, 97, 121, 103, 305, 44, 32, 351, 101, 102, 102, 97, 102, 108, 305, 107, 32, 118, 101, 32, 104, 101, 115, 97, 112, 32, 118, 101, 114, 101, 98, 105, 108, 105, 114, 108, 105, 107, 32, 105, 108, 107, 101, 108, 101, 114, 105, 109, 105, 122, 100, 101, 110, 32, 97, 115, 108, 97, 32, 116, 97, 118, 105, 122, 32, 118, 101, 114, 109, 101, 121, 101, 99, 101, 287, 105, 122, 46, 32, 304, 115, 116, 97, 110, 98, 117, 108, 39, 117, 32, 98, 105, 114, 108, 105, 107, 116, 101, 32, 121, 246, 110, 101, 116, 105, 121, 111, 114, 117, 122, 44, 32, 98, 105, 114, 108, 105, 107, 116, 101, 32, 98, 252, 121, 252, 116, 252, 121, 111, 114, 117, 122, 46, 32, 35, 68, 101, 109, 111, 107, 114, 97, 115, 105, 32, 35, 65, 100, 97, 108, 101, 116, 32, 35, 72, 97, 108, 107, 305, 110, 304, 114, 97, 100, 101, 115, 105],
       summary = [68, 101, 109, 111, 107, 114, 97, 115, 105, 32, 118, 101, 32, 97, 100, 97, 108, 101, 116, 32, 109, 252, 99, 97, 100, 101, 108, 101, 115, 105, 44, 32, 351, 101, 102, 102, 97, 102, 108, 305, 107, 32, 105, 108, 107, 101, 108, 101, 114, 105, 121, 108, 101, 32, 115, 252, 114, 100, 252, 114, 252, 108, 252, 121, 111, 114, 46],
       platform = twitter, date = twoDaysAgo d, time = [50, 48, 58, 51, 48],
       url = Some [104, 116, 116, 112, 115, 58, 47, 47, 116, 119, 105, 116, 116, 101, 114, 46, 99, 111, 109, 47, 105, 109, 97, 109, 111, 103, 108, 117, 95, 105, 110, 116, 47, 115, 116, 97, 116, 117, 115, 47, 57, 56, 55, 54, 53, 52, 51, 50, 49, 48],
       engagement = \<lparr>likes = 5234, shares = 1234, comments = 567\<rparr>,
       tags = [[68, 101, 109, 111, 107, 114, 97, 115, 105], [65, 100, 97, 108, 101, 116], [350, 101, 102, 102, 97, 102, 108, 305, 107], [72, 97, 108, 107, 305, 110, 304, 114, 97, 100, 101, 115, 105], [80, 111, 108, 105, 116, 105, 107, 97]],
       category = Some [80, 111, 108, 105, 116, 105, 107, 97], imageUrl = None,
       author = Some \<lparr>username = [105, 109, 97, 109, 111, 103, 108, 117, 95, 105, 110, 116], name = [69, 107, 114, 101, 109, 32, 304, 109, 97, 109, 111, 287, 108, 117], verified = True\<rparr>\<rparr>,
      \<lparr>id_post = [114, 101, 97, 108, 95, 99, 111, 110, 116, 101, 110, 116, 95, 53],
       content = [304, 115, 116, 97, 110, 98, 117, 108, 39, 100, 97, 32, 107, 252, 108, 116, 252, 114, 32, 118, 101, 32, 115, 97, 110, 97, 116, 32, 104, 97, 121, 97, 116, 305, 110, 305, 32, 99, 97, 110, 108, 97, 110, 100, 305, 114, 305, 121, 111, 114, 117, 122, 46, 32, 77, 252, 122, 101, 108, 101, 114, 105, 109, 105, 122, 44, 32, 116, 105, 121, 97, 116, 114, 111, 108, 97, 114, 305, 109, 305, 122, 32, 118, 101, 32, 107, 111, 110, 115, 101, 114, 32, 115, 97, 108, 111, 110, 108, 97, 114, 305, 109, 305, 122, 108, 97, 32, 351, 101, 104, 114, 105, 109, 105, 122, 105, 32, 107, 252, 108, 116, 252, 114, 32, 98, 97, 351, 107, 101, 110, 116, 105, 32, 121, 97, 112, 305, 121, 111, 114, 117, 122, 46, 32, 83, 97, 110, 97, 116, 32, 104, 101, 114, 107, 101, 115, 105, 110, 32, 104, 97, 107, 107, 305, 100, 305, 114, 46, 32, 35, 75, 252, 108, 116, 252, 114, 66, 97, 351, 107, 101, 110, 116, 105, 32, 35, 83, 97, 110, 97, 116, 72, 101, 114, 107, 101, 115, 105, 110, 32, 35, 304, 115, 116, 97, 110, 98, 117, 108, 75, 252, 108, 116, 252, 114],
       summary = [304, 115, 116, 97, 110, 98, 117, 108, 39, 100, 97, 32, 107, 252, 108, 116, 252, 114, 32, 118, 101, 32, 115, 97, 110, 97, 116, 32, 101, 116, 107, 105, 110, 108, 105, 107, 108, 101, 114, 105, 32, 97, 114, 116, 305, 114, 305, 108, 97, 114, 97, 107, 32, 351, 101, 104, 105, 114, 32, 107, 252, 108, 116, 252, 114, 32, 98, 97, 351, 107, 101, 110, 116, 105, 32, 121, 97, 112, 305, 108, 305, 121, 111, 114, 46],
       platform = youtube, date = today d, time = [49, 50, 58, 48, 48],
       url = Some [104, 116, 116, 112, 115, 58, 47, 47, 119, 119, 119, 46, 121, 111, 117, 116, 117, 98, 101, 46, 99, 111, 109, 47, 119, 97, 116, 99, 104, 63, 118, 61, 65, 66, 67, 49, 50, 51, 68, 69, 70, 52, 53, 54],
       engagement = \<lparr>likes = 1876, shares = 345, comments = 234\<rparr>,
       tags = [[75, 252, 108, 116, 252, 114], [83, 97, 110, 97, 116], [77, 252, 122, 101], [84, 105, 121, 97, 116, 114, 111], [304, 115, 116, 97, 110, 98, 117, 108]],
       category = Some [75, 252, 108, 116, 252, 114], imageUrl = None,
       author = Some \<lparr>username = [69, 107, 114, 101, 109, 73, 109, 97, 109, 111, 103, 108, 117, 84, 86], name = [69, 107, 114, 101, 109, 32, 304, 109, 97, 109, 111, 287, 108, 117], verified = True\<rparr>\<rparr>,
      \<lparr>id_post = [114, 101, 97, 108, 95, 99, 111, 110, 116, 101, 110, 116, 95, 54],
       content = [83, 111, 115, 121, 97, 108, 32, 98, 101, 108, 101, 100, 105, 121, 101, 99, 105, 108, 105, 107, 32, 97, 110, 108, 97, 121, 305, 351, 305, 109, 305, 122, 108, 97, 32, 104, 105, 231, 98, 105, 114, 32, 118, 97, 116, 97, 110, 100, 97, 351, 305, 109, 305, 122, 305, 32, 121, 97, 108, 110, 305, 122, 32, 98, 305, 114, 97, 107, 109, 305, 121, 111, 114, 117, 122, 46, 32, 89, 97, 351, 108, 305, 108, 97, 114, 305, 109, 305, 122, 97, 44, 32, 101, 110, 103, 101, 108, 108, 105, 32, 107, 97, 114, 100, 101, 351, 108, 101, 114, 105, 109, 105, 122, 101, 32, 118, 101, 32, 105, 104, 116, 105, 121, 97, 231, 32, 115, 97, 104, 105, 98, 105, 32, 97, 105, 108, 101, 108, 101, 114, 105, 109, 105, 122, 101, 32, 100, 101, 115, 116, 101, 107, 32, 111, 108, 109, 97, 121, 97, 32, 100, 101, 118, 97, 109, 32, 101, 100, 105, 121, 111, 114, 117, 122, 46, 32, 68, 97, 121, 97, 110, 305, 351, 109, 97, 32, 304, 115, 116, 97, 110, 98, 117, 108, 39, 117, 110, 32, 114, 117, 104, 117, 100, 117, 114, 46, 32, 35, 83, 111, 115, 121, 97, 108, 66, 101, 108, 101, 100, 105, 121, 101, 99, 105, 108, 105, 107, 32, 35, 68, 97, 121, 97, 110, 305, 351, 109, 97, 32, 35, 304, 115, 116, 97, 110, 98, 117, 108, 82, 117, 104, 117],
       summary = [83, 111, 115, 121, 97, 108, 32, 98, 101, 108, 101, 100, 105, 121, 101, 99, 105, 108, 105, 107, 32, 107, 97, 112, 115, 97, 109, 305, 110, 100, 97, 32, 121, 97, 351, 108, 305, 44, 32, 101, 110, 103, 101, 108, 108, 105, 32, 118, 101, 32, 105, 104, 116, 105, 121, 97, 231, 32, 115, 97, 104, 105, 98, 105, 32, 97, 105, 108, 101, 108, 101, 114, 101, 32, 100, 101, 115, 116, 101, 107, 32, 118, 101, 114, 105, 108, 105, 121, 111, 114, 46],
       platform = twitter, date = yesterday d, time = [48, 57, 58, 52, 53],
       url = Some [104, 116, 116, 112, 115, 58, 47, 47, 116, 119, 105, 116, 116, 101, 114, 46, 99, 111, 109, 47, 67, 66, 65, 100, 97, 121, 79, 102, 105, 115, 105, 47, 115, 116, 97, 116, 117, 115, 47, 53, 53, 53, 53, 54, 54, 54, 54, 55, 55],
       engagement = \<lparr>likes = 3421, shares = 567, comments = 289\<rparr>,
       tags = [[83, 111, 115, 121, 97, 108], [66, 101, 108, 101, 100, 105, 121, 101, 99, 105, 108, 105, 107], [68, 97, 121, 97, 110, 305, 351, 109, 97], [68, 101, 115, 116, 101, 107], [304, 115, 116, 97, 110, 98, 117, 108]],
       category = Some [83, 111, 115, 121, 97, 108], imageUrl = None,
       author = Some \<lparr>username = [67, 66, 65, 100, 97, 121, 79, 102, 105, 115, 105], name = [69, 107, 114, 101, 109, 32, 304, 109, 97, 109, 111, 287, 108, 117], verified = True\<rparr>\<rparr>,
      \<lparr>id_post = [114, 101, 97, 108, 95, 99, 111, 110, 116, 101, 110, 116, 95, 55],
       content = [304, 115, 116, 97, 110, 98, 117, 108, 39, 100, 97, 32, 115, 112, 111, 114, 32, 107, 252, 108, 116, 252, 114, 252, 110, 252, 32, 103, 101, 108, 105, 351, 116, 105, 114, 105, 121, 111, 114, 117, 122, 46, 32, 89, 101, 110, 105, 32, 115, 112, 111, 114, 32, 116, 101, 115, 105, 115, 108, 101, 114, 105, 44, 32, 104, 97, 108, 305, 32, 115, 97, 104, 97, 108, 97, 114, 32, 118, 101, 32, 102, 105, 116, 110, 101, 115, 115, 32, 97, 108, 97, 110, 108, 97, 114, 305, 121, 108, 97, 32, 118, 97, 116, 97, 110, 100, 97, 351, 108, 97, 114, 305, 109, 305, 122, 305, 110, 32, 115, 97, 287, 108, 305, 107, 108, 305, 32, 121, 97, 351, 97, 109, 32, 115, 252, 114, 109, 101, 115, 105, 110, 105, 32, 100, 101, 115, 116, 101, 107, 108, 105, 121, 111, 114, 117, 122, 46, 32, 83, 97, 287, 108, 305, 107, 108, 305, 32, 110, 101, 115, 105, 108, 108, 101, 114, 44, 32, 103, 252, 231, 108, 252, 32, 304, 115, 116, 97, 110, 98, 117, 108, 46, 32, 35, 83, 112, 111, 114, 304, 115, 116, 97, 110, 98, 117, 108, 32, 35, 83, 97, 287, 108, 305, 107, 108, 305, 89, 97, 351, 97, 109, 32, 35, 70, 105, 116, 110, 101, 115, 115, 72, 101, 114, 107, 101, 115, 105, 110],
       summary = [304, 115, 116, 97, 110, 98, 117, 108, 39, 100, 97, 32, 115, 112, 111, 114, 32, 116, 101, 115, 105, 115, 108, 101, 114, 105, 32, 97, 114, 116, 305, 114, 305, 108, 97, 114, 97, 107, 32, 118, 97, 116, 97, 110, 100, 97, 351, 108, 97, 114, 305, 110, 32, 115, 97, 287, 108, 305, 107, 108, 305, 32, 121, 97, 351, 97, 109, 32, 115, 252, 114, 109, 101, 115, 105, 32, 100, 101, 115, 116, 101, 107, 108, 101, 110, 105, 121, 111, 114, 46],
       platform = instagram, date = today d, time = [49, 56, 58, 50, 48],
       url = Some [104, 116, 116, 112, 115, 58, 47, 47, 119, 119, 119, 46, 105, 110, 115, 116, 97, 103, 114, 97, 109, 46, 99, 111, 109, 47, 112, 47, 68, 69, 70, 52, 53, 54, 71, 72, 73, 47],
       engagement = \<lparr>likes = 2987, shares = 198, comments = 156\<rparr>,
       tags = [[83, 112, 111, 114], [83, 97, 287, 108, 305, 107], [70, 105, 116, 110, 101, 115, 115], [304, 115, 116, 97, 110, 98, 117, 108], [83, 97, 287, 108, 305, 107, 108, 305, 89, 97, 351, 97, 109]],
       category = Some [83, 112, 111, 114], imageUrl = None,
       author = Some \<lparr>username = [101, 107, 114, 101, 109, 105, 109, 97, 109, 111, 103, 108, 117], name = [69, 107, 114, 101, 109, 32, 304, 109, 97, 109, 111, 287, 108, 117], verified = True\<rparr>\<rparr>,
      \<lparr>id_post = [114, 101, 97, 108, 95, 99, 111, 110, 116, 101, 110, 116, 95, 56],
       content = [304, 115, 116, 97, 110, 98, 117, 108, 39, 117, 110, 32, 101, 107, 111, 110, 111, 109, 105, 107, 32, 103, 252, 99, 252, 110, 252, 32, 97, 114, 116, 305, 114, 109, 97, 107, 32, 105, 231, 105, 110, 32, 103, 105, 114, 105, 351, 105, 109, 99, 105, 108, 101, 114, 105, 109, 105, 122, 105, 32, 100, 101, 115, 116, 101, 107, 108, 105, 121, 111, 114, 117, 122, 46, 32, 75, 79, 66, 304, 39, 108, 101, 114, 101, 32, 107, 114, 101, 100, 105, 32, 100, 101, 115, 116, 101, 287, 105, 44, 32, 103, 101, 110, 231, 32, 103, 105, 114, 105, 351, 105, 109, 99, 105, 108, 101, 114, 101, 32, 109, 101, 110, 116, 111, 114, 108, 117, 107, 32, 112, 114, 111, 103, 114, 97, 109, 108, 97, 114, 305, 32, 118, 101, 32, 105, 351, 32, 103, 101, 108, 105, 351, 116, 105, 114, 109, 101, 32, 109, 101, 114, 107, 101, 122, 108, 101, 114, 105, 121, 108, 101, 32, 101, 107, 111, 110, 111, 109, 105, 109, 105, 122, 105, 32, 103, 252, 231, 108, 101, 110, 100, 105, 114, 105, 121, 111, 114, 117, 122, 46, 32, 35, 71, 105, 114, 105, 351, 105, 109, 99, 105, 108, 105, 107, 68, 101, 115, 116, 101, 103, 105, 32, 35, 304, 115, 116, 97, 110, 98, 117, 108, 69, 107, 111, 110, 111, 109, 105, 32, 35, 75, 79, 66, 304, 68, 101, 115, 116, 101, 107],
       summary = [71, 105, 114, 105, 351, 105, 109, 99, 105, 108, 101, 114, 32, 118, 101, 32, 75, 79, 66, 304, 39, 108, 101, 114, 32, 105, 231, 105, 110, 32, 100, 101, 115, 116, 101, 107, 32, 112, 114, 111, 103, 114, 97, 109, 108, 97, 114, 305, 32, 105, 108, 101, 32, 304, 115, 116, 97, 110, 98, 117, 108, 39, 117, 110, 32, 101, 107, 111, 110, 111, 109, 105, 107, 32, 103, 252, 99, 252, 32, 97, 114, 116, 305, 114, 305, 108, 305, 121, 111, 114, 46],
       platform = facebook, date = yesterday d, time = [49, 51, 58, 49, 53],
       url = Some [104, 116, 116, 112, 115, 58, 47, 47, 119, 119, 119, 46, 102, 97, 99, 101, 98, 111, 111, 107, 46, 99, 111, 109, 47, 105, 109, 97, 109, 111, 103, 108, 117, 101, 107, 114, 101, 109, 47, 112, 111, 115, 116, 115, 47, 57, 56, 55, 54, 53, 52, 51, 50, 49],
       engagement = \<lparr>likes = 2156, shares = 432, comments = 178\<rparr>,
       tags = [[69, 107, 111, 110, 111, 109, 105], [71, 105, 114, 105, 351, 105, 109, 99, 105, 108, 105, 107], [75, 79, 66, 304], [304, 351], [68, 101, 115, 116, 101, 107]],
       category = Some [69, 107, 111, 110, 111, 109, 105], imageUrl = None,
       author = Some \<lparr>username = [105, 109, 97, 109, 111, 103, 108, 117, 101, 107, 114, 101, 109], name = [69, 107, 114, 101, 109, 32, 304, 109, 97, 109, 111, 287, 108, 117], verified = True\<rparr>\<rparr>]"

text \<open>
  \<open>getMockData\<close> of the second copy of the service among the sources (the unnamed part
  001, which differs from \<open>socialMediaService.ts\<close> in this method and in the logging of
  \<open>fetchRealRSSFeeds\<close> only): two posts with the ids system_message_1 and
  system_message_2, both on rss and in the category Sistem, telling the viewer that the
  feeds cannot be loaded at the moment.
\<close>

definition getMockData_part_001 :: "mock_clock \<Rightarrow> SocialMediaPost list" where
  "getMockData_part_001 d =
     [
      \<lparr>id_post = [115, 121, 115, 116, 101, 109, 95, 109, 101, 115, 115, 97, 103, 101, 95, 49],
       content = [9888, 65039, 32, 83, 111, 115, 121, 97, 108, 32, 109, 101, 100, 121, 97, 32, 98, 101, 115, 108, 101, 109, 101, 108, 101, 114, 105, 32, 351, 117, 32, 97, 110, 100, 97, 32, 121, 252, 107, 108, 101, 110, 101, 109, 105, 121, 111, 114, 46, 32, 66, 117, 32, 100, 117, 114, 117, 109, 32, 103, 101, 231, 105, 99, 105, 100, 105, 114, 32, 118, 101, 32, 103, 101, 110, 101, 108, 108, 105, 107, 108, 101, 32, 98, 105, 114, 107, 97, 231, 32, 100, 97, 107, 105, 107, 97, 32, 105, 231, 105, 110, 100, 101, 32, 100, 252, 122, 101, 108, 105, 114, 46, 32, 76, 252, 116, 102, 101, 110, 32, 115, 97, 121, 102, 97, 121, 305, 32, 121, 101, 110, 105, 108, 101, 121, 105, 110, 32, 118, 101, 121, 97, 32, 98, 105, 114, 107, 97, 231, 32, 100, 97, 107, 105, 107, 97, 32, 115, 111, 110, 114, 97, 32, 116, 101, 107, 114, 97, 114, 32, 100, 101, 110, 101, 121, 105, 110, 46, 32, 84, 119, 105, 116, 116, 101, 114, 32, 65, 80, 73, 32, 118, 101, 32, 82, 83, 83, 32, 98, 101, 115, 108, 101, 109, 101, 108, 101, 114, 105, 32, 121, 101, 110, 105, 100, 101, 110, 32, 98, 97, 287, 108, 97, 110, 109, 97, 121, 97, 32, 231, 97, 108, 305, 351, 305, 108, 305, 121, 111, 114, 46, 46, 46],
       summary = [83, 111, 115, 121, 97, 108, 32, 109, 101, 100, 121, 97, 32, 98, 101, 115, 108, 101, 109, 101, 108, 101, 114, 105, 32, 103, 101, 231, 105, 99, 105, 32, 111, 108, 97, 114, 97, 107, 32, 107, 117, 108, 108, 97, 110, 305, 108, 97, 109, 305, 121, 111, 114, 46],
       platform = rss, date = today d, time = timeNow d,
       url = Some [],
       engagement = \<lparr>likes = 0, shares = 0, comments = 0\<rparr>,
       tags = [[83, 105, 115, 116, 101, 109], [66, 105, 108, 103, 105], [71, 101, 231, 105, 99, 105]],
       category = Some [83, 105, 115, 116, 101, 109], imageUrl = None,
       author = None\<rparr>,
      \<lparr>id_post = [115, 121, 115, 116, 101, 109, 95, 109, 101, 115, 115, 97, 103, 101, 95, 50],
       content = [55357, 56615, 32, 84, 101, 107, 110, 105, 107, 32, 66, 105, 108, 103, 105, 58, 32, 83, 105, 116, 101, 32, 351, 117, 32, 97, 110, 100, 97, 32, 84, 119, 105, 116, 116, 101, 114, 32, 65, 80, 73, 32, 118, 50, 32, 118, 101, 32, 82, 83, 83, 32, 98, 101, 115, 108, 101, 109, 101, 108, 101, 114, 105, 110, 100, 101, 110, 32, 103, 101, 114, 231, 101, 107, 32, 122, 97, 109, 97, 110, 108, 305, 32, 118, 101, 114, 105, 32, 231, 101, 107, 109, 101, 121, 101, 32, 231, 97, 108, 305, 351, 305, 121, 111, 114, 46, 32, 66, 97, 287, 108, 97, 110, 116, 305, 32, 115, 111, 114, 117, 110, 108, 97, 114, 305, 32, 103, 101, 110, 101, 108, 108, 105, 107, 108, 101, 32, 107, 305, 115, 97, 32, 115, 252, 114, 101, 108, 105, 100, 105, 114, 46, 32, 86, 101, 114, 105, 108, 101, 114, 32, 98, 97, 351, 97, 114, 305, 121, 108, 97, 32, 121, 252, 107, 108, 101, 110, 100, 105, 287, 105, 110, 100, 101, 32, 98, 117, 32, 109, 101, 115, 97, 106, 108, 97, 114, 32, 111, 116, 111, 109, 97, 116, 105, 107, 32, 111, 108, 97, 114, 97, 107, 32, 107, 97, 121, 98, 111, 108, 97, 99, 97, 107, 46],
       summary = [83, 105, 115, 116, 101, 109, 32, 100, 117, 114, 117, 109, 117, 32, 118, 101, 32, 116, 101, 107, 110, 105, 107, 32, 98, 105, 108, 103, 105, 108, 101, 114, 46],
       platform = rss, date = today d, time = timeNow d,
       url = Some [],
       engagement = \<lparr>likes = 0, shares = 0, comments = 0\<rparr>,
       tags = [[84, 101, 107, 110, 105, 107], [65, 80, 73], [68, 117, 114, 117, 109]],
       category = Some [83, 105, 115, 116, 101, 109], imageUrl = None,
       author = None\<rparr>]"

definition Sistem :: jsstring where
  "Sistem = [83, 105, 115, 116, 101, 109]"

text \<open>
  One invocation of \<open>getAllPosts\<close> meets the following from outside: the value of
  \<open>Date.now()\<close> at the freshness test and at the write to the cache, the outcome of the
  fetch of either edge function, the date parser and the clock of \<open>getMockData\<close>.
\<close>

record env =
  nowAtCheck :: int
  twitterFetch :: fetch_outcome
  rssFetch :: fetch_outcome
  nowAtStore :: int
  parseDate :: "jsstring \<Rightarrow> int option"
  mockClock :: mock_clock

text \<open>
  The state \<open>getAllPosts\<close> works on: the cache of the service object, and the requests
  sent to the network so far.
\<close>

datatype endpoint = TwitterFunction | RssFunction

record service_state =
  cache :: "jsstring \<rightharpoonup> cache_entry"
  requests :: "endpoint list"

text \<open>
  \<open>getAllPosts\<close>, parametrised by the \<open>getMockData\<close> of the copy of the service it
  stands in. The two \<open>try\<close> blocks guard calls that cannot throw, so their \<open>catch\<close>
  branches have no counterpart here.
\<close>

definition getAllPostsWith ::
  "(mock_clock \<Rightarrow> SocialMediaPost list) \<Rightarrow> env \<Rightarrow> service_state \<Rightarrow>
     SocialMediaPost list \<times> service_state" where
  "getAllPostsWith mock e s =
     (let cached = cache s cacheKey in
      if (case cached of
            None \<Rightarrow> False
          | Some c \<Rightarrow> nowAtCheck e - timestamp c < CACHE_DURATION)
      then (data (the cached), s)
      else
        (let twitterPosts = fetchRealTwitterData (twitterFetch e);
             s1 = s\<lparr>requests := requests s @ [TwitterFunction]\<rparr>;
             (allPosts1, hasAnyData1) =
               (if length twitterPosts > 0 then ([] @ twitterPosts, True) else ([], False));
             rssPosts = fetchRealRSSFeeds (rssFetch e);
             s2 = s1\<lparr>requests := requests s1 @ [RssFunction]\<rparr>;
             (allPosts2, hasAnyData2) =
               (if length rssPosts > 0 then (allPosts1 @ rssPosts, True)
                else (allPosts1, hasAnyData1))
         in if hasAnyData2 then
              (let sortedPosts = arraySort (compareFn (parseDate e)) allPosts2;
                   s3 = s2\<lparr>cache := (cache s2)(cacheKey \<mapsto>
                          \<lparr>data = sortedPosts, timestamp = nowAtStore e\<rparr>)\<rparr>
               in (sortedPosts, s3))
            else (case cached of
                    Some c \<Rightarrow> (data c, s2)
                  | None \<Rightarrow> (mock (mockClock e), s2))))"

text \<open>\<open>getAllPosts\<close> of \<open>src/services/socialMediaService.ts\<close>, the service the page imports.\<close>

definition getAllPosts :: "env \<Rightarrow> service_state \<Rightarrow> SocialMediaPost list \<times> service_state" where
  "getAllPosts = getAllPostsWith getMockData"

text \<open>\<open>getAllPosts\<close> of the second copy of the service.\<close>

definition getAllPosts_part_001 ::
  "env \<Rightarrow> service_state \<Rightarrow> SocialMediaPost list \<times> service_state" where
  "getAllPosts_part_001 = getAllPostsWith getMockData_part_001"

section \<open>Concrete posts and environments\<close>

text \<open>
  A post of 15 January 2025, 14:30, on twitter, with the tags Metro and Ulasim; a post of
  3 February 2025, 09:05, on rss, without a category; and a post whose date and time are
  empty, so that its time stamp does not parse.
\<close>

definition postJan :: SocialMediaPost where
  "postJan =
     \<lparr>id_post = [116, 119, 95, 49],
      content = [89, 101, 110, 105, 32, 109, 101, 116, 114, 111, 32, 104, 97, 116, 116, 305, 32, 97, 231, 305, 108, 100, 305],
      summary = [89, 101, 110, 105, 32, 109, 101, 116, 114, 111, 32, 104, 97, 116, 116, 305],
      platform = twitter,
      date = [50, 48, 50, 53, 45, 48, 49, 45, 49, 53], time = [49, 52, 58, 51, 48],
      url = None, engagement = \<lparr>likes = 12, shares = 3, comments = 1\<rparr>,
      tags = [[77, 101, 116, 114, 111], [85, 108, 97, 351, 305, 109]],
      category = Some [85, 108, 97, 351, 305, 109], imageUrl = None, author = None\<rparr>"

definition postFeb :: SocialMediaPost where
  "postFeb =
     \<lparr>id_post = [114, 115, 115, 95, 50],
      content = [80, 97, 114, 107, 32, 121, 101, 110, 105, 108, 101, 110, 100, 105],
      summary = [80, 97, 114, 107, 32, 121, 101, 110, 105, 108, 101, 110, 100, 105],
      platform = rss,
      date = [50, 48, 50, 53, 45, 48, 50, 45, 48, 51], time = [48, 57, 58, 48, 53],
      url = None, engagement = \<lparr>likes = 0, shares = 0, comments = 0\<rparr>,
      tags = [[80, 97, 114, 107]],
      category = None, imageUrl = None, author = None\<rparr>"

definition postUndated :: SocialMediaPost where
  "postUndated =
     \<lparr>id_post = [98, 97, 100, 95, 51],
      content = [80, 97, 114, 107, 32, 121, 101, 110, 105, 108, 101, 110, 100, 105],
      summary = [80, 97, 114, 107, 32, 121, 101, 110, 105, 108, 101, 110, 100, 105],
      platform = rss,
      date = [], time = [],
      url = None, engagement = \<lparr>likes = 0, shares = 0, comments = 0\<rparr>,
      tags = [],
      category = None, imageUrl = None, author = None\<rparr>"

text \<open>
  A date parser that knows the two time stamps above, read as UTC, and gives NaN for every
  other string, as the engine does for the single space that \<open>postUndated\<close> yields.
\<close>

definition parseTwo :: "jsstring \<Rightarrow> int option" where
  "parseTwo s =
     (if s = [50, 48, 50, 53, 45, 48, 49, 45, 49, 53, 32, 49, 52, 58, 51, 48] then Some 1736951400000
      else if s = [50, 48, 50, 53, 45, 48, 50, 45, 48, 51, 32, 48, 57, 58, 48, 53] then Some 1738573500000
      else None)"

definition clockJan :: mock_clock where
  "clockJan =
     \<lparr>today = [50, 48, 50, 53, 45, 48, 49, 45, 49, 53],
      yesterday = [50, 48, 50, 53, 45, 48, 49, 45, 49, 52],
      twoDaysAgo = [50, 48, 50, 53, 45, 48, 49, 45, 49, 51],
      timeNow = [49, 52, 58, 51, 48]\<rparr>"

text \<open>
  Environments: every fetch rejected; the twitter function answering with the undated
  post followed by the January post and the rss function with nothing; the twitter
  function answering with the January post and the rss function with the February post.
\<close>

definition envAllFail :: env where
  "envAllFail =
     \<lparr>nowAtCheck = 1736951400000, twitterFetch = Rejected, rssFetch = Rejected,
      nowAtStore = 1736951400250, parseDate = parseTwo, mockClock = clockJan\<rparr>"

definition envUndated :: env where
  "envUndated =
     \<lparr>nowAtCheck = 1736951400000,
      twitterFetch = Response True (Json True (Some [postUndated, postJan])),
      rssFetch = Response False NotJson,
      nowAtStore = 1736951400250, parseDate = parseTwo, mockClock = clockJan\<rparr>"

definition envBoth :: env where
  "envBoth =
     \<lparr>nowAtCheck = 1736951400000,
      twitterFetch = Response True (Json True (Some [postJan])),
      rssFetch = Response True (Json True (Some [postFeb])),
      nowAtStore = 1736951400250, parseDate = parseTwo, mockClock = clockJan\<rparr>"

text \<open>
  States: the service right after construction, and the service holding a cache entry
  with the January post, written one minute or ten minutes before the check above.
\<close>

definition stateEmpty :: service_state where
  "stateEmpty = \<lparr>cache = Map.empty, requests = []\<rparr>"

definition stateFresh :: service_state where
  "stateFresh =
     \<lparr>cache = [cacheKey \<mapsto> \<lparr>data = [postJan], timestamp = 1736951340000\<rparr>], requests = []\<rparr>"

definition stateStale :: service_state where
  "stateStale =
     \<lparr>cache = [cacheKey \<mapsto> \<lparr>data = [postJan], timestamp = 1736950800000\<rparr>], requests = []\<rparr>"

text \<open>
  Filters: the platform twitter with the date range of January 2025 and the requested tag
  "et"; and a platform given as the empty string with nothing else.
\<close>

definition filtersJanuary :: filters where
  "filtersJanuary =
     \<lparr>platform_f = Some [116, 119, 105, 116, 116, 101, 114], category_f = None,
      dateFrom = Some [50, 48, 50, 53, 45, 48, 49, 45, 48, 49],
      dateTo = Some [50, 48, 50, 53, 45, 48, 49, 45, 51, 49],
      tags_f = Some [[101, 116]]\<rparr>"

definition filtersEmptyPlatform :: filters where
  "filtersEmptyPlatform =
     \<lparr>platform_f = Some [], category_f = None, dateFrom = None, dateTo = None, tags_f = None\<rparr>"

text \<open>
  Texts: a fragment of markup with two entities, doubled spaces and a trailing line feed;
  499 letters a followed by a space and a letter b; and the sentence about Istanbul with
  the hashtags Metro and YesilUlasim (in Turkish spelling, U+0130 first) that the
  specification gives for \<open>extractTags\<close>.
\<close>

definition markupInput :: jsstring where
  "markupInput = [60, 98, 62, 77, 101, 114, 104, 97, 98, 97, 60, 47, 98, 62, 32, 32, 38, 97, 109, 112, 59, 32, 100, 38, 35, 50, 53, 50, 59, 110, 121, 97, 32, 10]"

definition longInput :: jsstring where
  "longInput = 97 # replicate 498 97 @ [32, 98]"

definition tagsInput :: jsstring where
  "tagsInput = [304, 115, 116, 97, 110, 98, 117, 108, 39, 100, 97, 32, 35, 77, 101, 116, 114, 111, 32, 118, 101, 32, 35, 89, 101, 351, 105, 108, 85, 108, 97, 351, 305, 109, 32, 98, 252, 121, 252, 121, 111, 114]"

section \<open>Facts about strings\<close>

lemma str_less_iff: "str_less a b \<longleftrightarrow> a < b"
  by (induction a b rule: str_less.induct) simp_all

lemma includes_iff: "includes_str hay needle \<longleftrightarrow> sublist needle hay"
  by (induction hay) (simp_all add: sublist_Cons_right)

lemma trim_blank:
  assumes "\<forall>c \<in> set q. isWs c"
  shows "trim q = []"
proof -
  from assms have d: "dropWhile isWs q = []" by simp
  show ?thesis unfolding trim_def trimStart_def trimEnd_def d by simp
qed

section \<open>The query layer\<close>

text \<open>
  Claim C9. For every post list, \<open>searchPosts\<close> applied with an empty or white-space-only
  query returns the input list unchanged.
\<close>

theorem searchPosts_blank_query:
  "\<forall>c \<in> set query. isWs c \<Longrightarrow> searchPosts posts query = posts"
  by (simp add: searchPosts_def trim_blank)

text \<open>The empty query and a query of a space, a tab and a no-break space.\<close>

theorem searchPosts_blank_query_witness:
  "searchPosts [postJan, postFeb] [] = [postJan, postFeb]
   \<and> searchPosts [postJan, postFeb] [32, 9, 160] = [postJan, postFeb]"
  using searchPosts_blank_query [of "[]" "[postJan, postFeb]"]
    searchPosts_blank_query [of "[32, 9, 160]" "[postJan, postFeb]"]
  by (simp add: isWs_def)

text \<open>
  Claim C10. For every post list, every query and every filters record, \<open>searchPosts\<close>
  and \<open>filterPosts\<close> each return a subsequence of the input: each result is the input
  filtered by some predicate on single posts, so every post of the output is a post of the
  input, the order is kept and no post is duplicated or made up. Nothing is mutated:
  both are functions of their arguments, and the posts of the result are those of the input.
\<close>

theorem search_filter_subseq:
  "subseq (searchPosts posts query) posts \<and> subseq (filterPosts posts f) posts
   \<and> (\<exists>P. searchPosts posts query = filter P posts)
   \<and> (\<exists>P. filterPosts posts f = filter P posts)"
proof -
  have "\<exists>P. searchPosts posts query = filter P posts"
  proof (cases "trim query = []")
    case True
    then have "searchPosts posts query = filter (\<lambda>p. True) posts"
      by (simp add: searchPosts_def)
    then show ?thesis by blast
  next
    case False
    then show ?thesis unfolding searchPosts_def Let_def by auto
  qed
  moreover have "\<exists>P. filterPosts posts f = filter P posts"
    unfolding filterPosts_def by blast
  ultimately show ?thesis by (metis subseq_filter_left)
qed

text \<open>Each test of the callback of \<open>filterPosts\<close>, and the callback as their conjunction.\<close>

lemma platform_test:
  "\<not> (truthy (platform_f f) \<and> Some (platformString (platform post)) \<noteq> platform_f f) \<longleftrightarrow>
     (\<forall>s. platform_f f = Some s \<and> s \<noteq> [] \<longrightarrow> platformString (platform post) = s)"
  by (cases "platform_f f") (auto simp: truthy_def)

lemma category_test:
  "\<not> (truthy (category_f f) \<and> category post \<noteq> category_f f) \<longleftrightarrow>
     (\<forall>s. category_f f = Some s \<and> s \<noteq> [] \<longrightarrow> category post = Some s)"
  by (cases "category_f f") (auto simp: truthy_def)

lemma dateFrom_test:
  "\<not> (truthy (dateFrom f) \<and> str_less (date post) (the (dateFrom f))) \<longleftrightarrow>
     (\<forall>d. dateFrom f = Some d \<and> d \<noteq> [] \<longrightarrow> d \<le> date post)"
  by (cases "dateFrom f") (auto simp: truthy_def str_less_iff not_less)

lemma dateTo_test:
  "\<not> (truthy (dateTo f) \<and> str_less (the (dateTo f)) (date post)) \<longleftrightarrow>
     (\<forall>d. dateTo f = Some d \<and> d \<noteq> [] \<longrightarrow> date post \<le> d)"
  by (cases "dateTo f") (auto simp: truthy_def str_less_iff not_less)

lemma tags_test:
  "(if (case tags_f f of None \<Rightarrow> False | Some ts \<Rightarrow> length ts > 0) then
      (let hasMatchingTag =
         list_ex (\<lambda>tag. list_ex (\<lambda>postTag. includes_str (toLowerCase postTag) (toLowerCase tag))
                    (tags post)) (the (tags_f f))
       in if \<not> hasMatchingTag then False else True)
    else True) \<longleftrightarrow>
     (\<forall>ts. tags_f f = Some ts \<and> ts \<noteq> [] \<longrightarrow>
         (\<exists>tag \<in> set ts. \<exists>postTag \<in> set (tags post).
            sublist (toLowerCase tag) (toLowerCase postTag)))"
  by (cases "tags_f f") (auto simp: Let_def list_ex_iff includes_iff)

lemma early_returns:
  "(if a then False else if b then False else if c then False else if d then False else e)
     \<longleftrightarrow> \<not> a \<and> \<not> b \<and> \<not> c \<and> \<not> d \<and> e"
  by simp

lemma keepPost_iff:
  "keepPost f post \<longleftrightarrow>
     (\<forall>s. platform_f f = Some s \<and> s \<noteq> [] \<longrightarrow> platformString (platform post) = s)
   \<and> (\<forall>s. category_f f = Some s \<and> s \<noteq> [] \<longrightarrow> category post = Some s)
   \<and> (\<forall>d. dateFrom f = Some d \<and> d \<noteq> [] \<longrightarrow> d \<le> date post)
   \<and> (\<forall>d. dateTo f = Some d \<and> d \<noteq> [] \<longrightarrow> date post \<le> d)
   \<and> (\<forall>ts. tags_f f = Some ts \<and> ts \<noteq> [] \<longrightarrow>
         (\<exists>tag \<in> set ts. \<exists>postTag \<in> set (tags post).
            sublist (toLowerCase tag) (toLowerCase postTag)))"
proof -
  have "keepPost f post \<longleftrightarrow>
      \<not> (truthy (platform_f f) \<and> Some (platformString (platform post)) \<noteq> platform_f f)
    \<and> \<not> (truthy (category_f f) \<and> category post \<noteq> category_f f)
    \<and> \<not> (truthy (dateFrom f) \<and> str_less (date post) (the (dateFrom f)))
    \<and> \<not> (truthy (dateTo f) \<and> str_less (the (dateTo f)) (date post))
    \<and> (if (case tags_f f of None \<Rightarrow> False | Some ts \<Rightarrow> length ts > 0) then
          (let hasMatchingTag =
             list_ex (\<lambda>tag. list_ex (\<lambda>postTag. includes_str (toLowerCase postTag) (toLowerCase tag))
                        (tags post)) (the (tags_f f))
           in if \<not> hasMatchingTag then False else True)
        else True)"
    unfolding keepPost_def by (rule early_returns)
  then show ?thesis
    by (simp only: platform_test category_test dateFrom_test dateTo_test tags_test)
qed

text \<open>
  Claim C8, amended. For every post list and every filters record, \<open>filterPosts\<close> keeps
  a post iff every filter dimension that is given and not empty holds for it: platform
  and category require exact equality; dateFrom and dateTo bound the date of the post in
  the lexicographic order of strings; and for a non-empty list of tags some requested tag
  is, after lower-casing both, a contiguous part of some tag of the post. A dimension
  given as the empty string constrains nothing, like one that is not given.
\<close>

theorem filterPosts_keeps_iff:
  "filterPosts posts f = filter (\<lambda>post.
     (\<forall>s. platform_f f = Some s \<and> s \<noteq> [] \<longrightarrow> platformString (platform post) = s)
   \<and> (\<forall>s. category_f f = Some s \<and> s \<noteq> [] \<longrightarrow> category post = Some s)
   \<and> (\<forall>d. dateFrom f = Some d \<and> d \<noteq> [] \<longrightarrow> d \<le> date post)
   \<and> (\<forall>d. dateTo f = Some d \<and> d \<noteq> [] \<longrightarrow> date post \<le> d)
   \<and> (\<forall>ts. tags_f f = Some ts \<and> ts \<noteq> [] \<longrightarrow>
         (\<exists>tag \<in> set ts. \<exists>postTag \<in> set (tags post).
            sublist (toLowerCase tag) (toLowerCase postTag)))) posts"
proof -
  have "keepPost f = (\<lambda>post.
     (\<forall>s. platform_f f = Some s \<and> s \<noteq> [] \<longrightarrow> platformString (platform post) = s)
   \<and> (\<forall>s. category_f f = Some s \<and> s \<noteq> [] \<longrightarrow> category post = Some s)
   \<and> (\<forall>d. dateFrom f = Some d \<and> d \<noteq> [] \<longrightarrow> d \<le> date post)
   \<and> (\<forall>d. dateTo f = Some d \<and> d \<noteq> [] \<longrightarrow> date post \<le> d)
   \<and> (\<forall>ts. tags_f f = Some ts \<and> ts \<noteq> [] \<longrightarrow>
         (\<exists>tag \<in> set ts. \<exists>postTag \<in> set (tags post).
            sublist (toLowerCase tag) (toLowerCase postTag))))"
    by (rule ext) (rule keepPost_iff)
  then show ?thesis by (simp only: filterPosts_def)
qed

text \<open>
  The January filters on the January and the February post: the first is on twitter, in
  range and carries the tag Metro, the second fails the platform and the upper date.
\<close>

theorem filterPosts_keeps_iff_witness:
  "filterPosts [postJan, postFeb] filtersJanuary = [postJan]"
  using filterPosts_keeps_iff [of "[postJan, postFeb]" filtersJanuary]
  by (simp add: filtersJanuary_def postJan_def postFeb_def toLowerCase_def lowerUnit_def
        sublist_code)

text \<open>
  Claim C8 as stated fails for a platform given as the empty string: the dimension is
  present and no post has that platform, yet the post is kept.
\<close>

theorem filterPosts_empty_platform_counterexample:
  "platform_f filtersEmptyPlatform = Some []
   \<and> platformString (platform postJan) \<noteq> []
   \<and> filterPosts [postJan] filtersEmptyPlatform = [postJan]"
  by (simp add: filtersEmptyPlatform_def postJan_def filterPosts_def keepPost_def truthy_def)

section \<open>The content normalizer\<close>

subsection \<open>Markup tags through the steps of cleanContent\<close>

lemma hasTag_iff: "hasTag s \<longleftrightarrow> (\<exists>a b c. s = a @ LT # b @ GT # c)"
proof
  assume "hasTag s"
  then show "\<exists>a b c. s = a @ LT # b @ GT # c"
  proof (induction s)
    case Nil
    then show ?case by simp
  next
    case (Cons x xs)
    from Cons.prems consider "x = LT \<and> GT \<in> set xs" | "hasTag xs" by auto
    then show ?case
    proof cases
      case 1
      then obtain b c where "xs = b @ GT # c" by (auto simp: in_set_conv_decomp)
      with 1 have "x # xs = [] @ LT # b @ GT # c" by simp
      then show ?thesis by blast
    next
      case 2
      with Cons.IH obtain a b c where "xs = a @ LT # b @ GT # c" by blast
      then have "x # xs = (x # a) @ LT # b @ GT # c" by simp
      then show ?thesis by blast
    qed
  qed
next
  assume "\<exists>a b c. s = a @ LT # b @ GT # c"
  then obtain a b c where s: "s = a @ LT # b @ GT # c" by blast
  have "hasTag (LT # b @ GT # c)" by simp
  then have "hasTag (a @ LT # b @ GT # c)"
  proof (induction a)
    case Nil
    then show ?case by simp
  next
    case (Cons y a)
    then show ?case by simp
  qed
  with s show "hasTag s" by simp
qed

lemma hasTag_append: "hasTag a \<or> hasTag b \<Longrightarrow> hasTag (a @ b)"
  by (induction a) auto

lemma hasTag_suffix: "suffix t s \<Longrightarrow> hasTag t \<Longrightarrow> hasTag s"
  by (auto simp: suffix_def hasTag_append)

lemma hasTag_prefix: "prefix t s \<Longrightarrow> hasTag t \<Longrightarrow> hasTag s"
  by (auto simp: prefix_def hasTag_append)

lemma rest_suffix:
  assumes "dropWhile P cs = x # rest"
  shows "suffix rest cs"
proof -
  have "cs = takeWhile P cs @ dropWhile P cs" by simp
  with assms have "cs = (takeWhile P cs @ [x]) @ rest" by simp
  then show ?thesis unfolding suffix_def by blast
qed

lemma set_stripTags: "set (stripTags s) \<subseteq> set s"
proof (induction s rule: stripTags.induct)
  case 1
  then show ?case by simp
next
  case (2 c cs)
  show ?case
  proof (cases "c = LT")
    case False
    with 2 show ?thesis by auto
  next
    case True
    show ?thesis
    proof (cases "dropWhile (\<lambda>x. x \<noteq> GT) cs")
      case Nil
      with True 2 have "set (stripTags cs) \<subseteq> set cs" by simp
      then show ?thesis by (auto simp add: True Nil simp del: dropWhile_eq_Nil_conv)
    next
      case (Cons g rest)
      with True 2 have "set (stripTags rest) \<subseteq> set rest" by simp
      moreover from Cons have "set rest \<subseteq> set cs"
        by (meson rest_suffix set_mono_suffix)
      ultimately show ?thesis using True Cons by auto
    qed
  qed
qed

lemma stripTags_no_tag: "\<not> hasTag (stripTags s)"
proof (induction s rule: stripTags.induct)
  case 1
  then show ?case by simp
next
  case (2 c cs)
  show ?case
  proof (cases "c = LT")
    case False
    with 2 show ?thesis by simp
  next
    case True
    show ?thesis
    proof (cases "dropWhile (\<lambda>x. x \<noteq> GT) cs")
      case Nil
      then have "GT \<notin> set cs" by auto
      with set_stripTags have "GT \<notin> set (stripTags cs)" by blast
      moreover from True Nil 2 have "\<not> hasTag (stripTags cs)" by simp
      ultimately show ?thesis by (simp add: True Nil del: dropWhile_eq_Nil_conv)
    next
      case (Cons g rest)
      with True 2 show ?thesis by simp
    qed
  qed
qed

lemma set_replaceEntities: "set (replaceEntities s) \<subseteq> insert SP (set s)"
proof (induction s rule: replaceEntities.induct)
  case 1
  then show ?case by simp
next
  case (2 c cs)
  show ?case
  proof (cases "c = AMP \<and> takeWhile (\<lambda>x. x \<noteq> SEMI) cs \<noteq> []")
    case False
    with 2 show ?thesis by auto
  next
    case True
    show ?thesis
    proof (cases "dropWhile (\<lambda>x. x \<noteq> SEMI) cs")
      case Nil
      with True 2 have "set (replaceEntities cs) \<subseteq> insert SP (set cs)" by simp
      then show ?thesis by (auto simp add: True Nil simp del: dropWhile_eq_Nil_conv)
    next
      case (Cons g rest)
      with True 2 have "set (replaceEntities rest) \<subseteq> insert SP (set rest)" by simp
      moreover from Cons have "set rest \<subseteq> set cs"
        by (meson rest_suffix set_mono_suffix)
      ultimately show ?thesis using True Cons by auto
    qed
  qed
qed

lemma replaceEntities_tag: "hasTag (replaceEntities s) \<Longrightarrow> hasTag s"
proof (induction s rule: replaceEntities.induct)
  case 1
  then show ?case by simp
next
  case (2 c cs)
  have gt: "GT \<in> set (replaceEntities cs) \<Longrightarrow> GT \<in> set cs"
    using set_replaceEntities [of cs] by (auto simp: GT_def SP_def)
  show ?case
  proof (cases "c = AMP \<and> takeWhile (\<lambda>x. x \<noteq> SEMI) cs \<noteq> []")
    case False
    with 2 gt show ?thesis by auto
  next
    case True
    show ?thesis
    proof (cases "dropWhile (\<lambda>x. x \<noteq> SEMI) cs")
      case Nil
      with True 2 have "hasTag (c # replaceEntities cs)"
        by (simp del: dropWhile_eq_Nil_conv)
      with 2 True Nil gt show ?thesis by auto
    next
      case (Cons g rest)
      with True 2 have "hasTag rest" by (simp add: SP_def LT_def)
      with Cons have "hasTag cs" by (meson rest_suffix hasTag_suffix)
      then show ?thesis by simp
    qed
  qed
qed

lemma set_collapseWs: "set (collapseWs s) \<subseteq> insert SP (set s)"
proof (induction s rule: collapseWs.induct)
  case 1
  then show ?case by simp
next
  case (2 c cs)
  have "set (dropWhile isWs cs) \<subseteq> set cs"
    by (meson set_mono_suffix suffix_dropWhile)
  with 2 show ?case by auto
qed

lemma collapseWs_tag: "hasTag (collapseWs s) \<Longrightarrow> hasTag s"
proof (induction s rule: collapseWs.induct)
  case 1
  then show ?case by simp
next
  case (2 c cs)
  have gt: "GT \<in> set (collapseWs cs) \<Longrightarrow> GT \<in> set cs"
    using set_collapseWs [of cs] by (auto simp: GT_def SP_def)
  show ?case
  proof (cases "isWs c")
    case True
    with 2 have "hasTag (dropWhile isWs cs)" by (simp add: SP_def LT_def)
    then have "hasTag cs" by (meson hasTag_suffix suffix_dropWhile)
    then show ?thesis by simp
  next
    case False
    with 2 gt show ?thesis by auto
  qed
qed

lemma trimEnd_prefix: "prefix (trimEnd s) s"
  unfolding trimEnd_def by (metis rev_rev_ident suffix_dropWhile suffix_to_prefix)

lemma trim_tag: "hasTag (trim s) \<Longrightarrow> hasTag s"
  unfolding trim_def trimStart_def
  by (meson hasTag_prefix hasTag_suffix suffix_dropWhile trimEnd_prefix)

lemma cleanContent_no_tag: "\<not> hasTag (cleanContent s)"
proof
  assume "hasTag (cleanContent s)"
  then have "hasTag (trim (collapseWs (replaceEntities (stripTags s))))"
    unfolding cleanContent_def substring0_def by (meson hasTag_prefix take_is_prefix)
  then have "hasTag (stripTags s)"
    by (meson trim_tag collapseWs_tag replaceEntities_tag)
  then show False by (simp add: stripTags_no_tag)
qed

subsection \<open>White space through the steps of cleanContent\<close>

lemma isWs_SP: "isWs SP"
  by (simp add: isWs_def SP_def)

lemma hasWsRun_Cons: "hasWsRun (x # ys) \<longleftrightarrow> (isWs x \<and> startsWithWs ys) \<or> hasWsRun ys"
  by (cases ys) (simp_all add: startsWithWs_def)

lemma startsWithWs_dropWhile: "\<not> startsWithWs (dropWhile isWs s)"
  by (induction s) (simp_all add: startsWithWs_def)

lemma startsWithWs_collapseWs: "startsWithWs (collapseWs s) \<longleftrightarrow> startsWithWs s"
  by (cases s) (simp_all add: startsWithWs_def isWs_SP)

lemma collapseWs_no_run: "\<not> hasWsRun (collapseWs s)"
proof (induction s rule: collapseWs.induct)
  case 1
  then show ?case by simp
next
  case (2 c cs)
  then show ?case
    by (simp add: hasWsRun_Cons startsWithWs_collapseWs startsWithWs_dropWhile)
qed

lemma hasWsRun_append: "hasWsRun a \<or> hasWsRun b \<Longrightarrow> hasWsRun (a @ b)"
proof (induction a)
  case Nil
  then show ?case by simp
next
  case (Cons x a)
  have "startsWithWs a \<Longrightarrow> startsWithWs (a @ b)"
    by (cases a) (simp_all add: startsWithWs_def)
  with Cons show ?case by (auto simp: hasWsRun_Cons)
qed

lemma hasWsRun_prefix: "prefix t s \<Longrightarrow> hasWsRun t \<Longrightarrow> hasWsRun s"
  by (auto simp: prefix_def hasWsRun_append)

lemma hasWsRun_suffix: "suffix t s \<Longrightarrow> hasWsRun t \<Longrightarrow> hasWsRun s"
  by (auto simp: suffix_def hasWsRun_append)

lemma trim_run: "hasWsRun (trim s) \<Longrightarrow> hasWsRun s"
  unfolding trim_def trimStart_def
  by (meson hasWsRun_prefix hasWsRun_suffix suffix_dropWhile trimEnd_prefix)

lemma cleanContent_no_run: "\<not> hasWsRun (cleanContent s)"
proof
  assume "hasWsRun (cleanContent s)"
  then have "hasWsRun (trim (collapseWs (replaceEntities (stripTags s))))"
    unfolding cleanContent_def substring0_def by (meson hasWsRun_prefix take_is_prefix)
  then have "hasWsRun (collapseWs (replaceEntities (stripTags s)))"
    by (rule trim_run)
  then show False by (simp add: collapseWs_no_run)
qed

lemma hasSpaceRun_hasWsRun: "hasSpaceRun s \<Longrightarrow> hasWsRun s"
  by (induction s rule: hasSpaceRun.induct) (auto simp: isWs_SP)

lemma startsWithWs_prefix: "prefix t s \<Longrightarrow> startsWithWs t \<Longrightarrow> startsWithWs s"
  by (cases t; cases s) (auto simp: startsWithWs_def)

lemma trim_no_leading: "\<not> startsWithWs (trim s)"
  unfolding trim_def trimStart_def
  by (meson startsWithWs_prefix startsWithWs_dropWhile trimEnd_prefix)

lemma trim_no_trailing: "\<not> endsWithWs (trim s)"
  unfolding trim_def trimEnd_def endsWithWs_def
  by (simp add: startsWithWs_dropWhile)

lemma cleanContent_no_leading: "\<not> startsWithWs (cleanContent s)"
  unfolding cleanContent_def substring0_def
  by (meson startsWithWs_prefix take_is_prefix trim_no_leading)

lemma cleanContent_no_trailing:
  assumes "length (cleanContent s) < 500"
  shows "\<not> endsWithWs (cleanContent s)"
proof -
  let ?t = "trim (collapseWs (replaceEntities (stripTags s)))"
  from assms have "length (take 500 ?t) < 500"
    by (simp add: cleanContent_def substring0_def)
  then have "take 500 ?t = ?t" by simp
  then have "cleanContent s = ?t" by (simp add: cleanContent_def substring0_def)
  then show ?thesis by (simp add: trim_no_trailing)
qed

text \<open>
  Claim C5, amended. For every input string, \<open>cleanContent\<close> returns a string of length
  at most 500 that contains no markup tag, no two adjacent white-space characters (so no
  run of two or more spaces) and no leading white space, and that has no trailing white
  space whenever it is shorter than 500; it is computed by stripping markup tags,
  replacing entities by spaces, collapsing white-space runs to single spaces, trimming and
  then truncating to 500 code units. It is a function of its argument alone.
\<close>

theorem cleanContent_properties:
  "length (cleanContent txt) \<le> 500
   \<and> \<not> hasTag (cleanContent txt)
   \<and> \<not> hasWsRun (cleanContent txt)
   \<and> \<not> hasSpaceRun (cleanContent txt)
   \<and> \<not> startsWithWs (cleanContent txt)
   \<and> (length (cleanContent txt) < 500 \<longrightarrow> \<not> endsWithWs (cleanContent txt))
   \<and> cleanContent txt = take 500 (trim (collapseWs (replaceEntities (stripTags txt))))"
proof -
  have "length (cleanContent txt) \<le> 500"
    by (simp add: cleanContent_def substring0_def)
  moreover have "\<not> hasSpaceRun (cleanContent txt)"
    using cleanContent_no_run hasSpaceRun_hasWsRun by blast
  moreover have "cleanContent txt = take 500 (trim (collapseWs (replaceEntities (stripTags txt))))"
    by (simp add: cleanContent_def substring0_def)
  ultimately show ?thesis
    using cleanContent_no_tag cleanContent_no_run cleanContent_no_leading
      cleanContent_no_trailing by blast
qed

text \<open>The markup fragment comes out as "Merhaba d nya", thirteen code units.\<close>

lemma cleanContent_markupInput:
  "cleanContent markupInput = [77, 101, 114, 104, 97, 98, 97, 32, 100, 32, 110, 121, 97]"
  by (simp add: cleanContent_def markupInput_def substring0_def trim_def trimStart_def
        trimEnd_def isWs_def LT_def GT_def AMP_def SEMI_def SP_def)

theorem cleanContent_properties_witness:
  "length (cleanContent markupInput) < 500 \<and> \<not> endsWithWs (cleanContent markupInput)
   \<and> \<not> hasTag (cleanContent markupInput) \<and> \<not> hasWsRun (cleanContent markupInput)"
proof -
  have "length (cleanContent markupInput) < 500"
    by (simp add: cleanContent_markupInput)
  with cleanContent_properties [of markupInput] show ?thesis by blast
qed

text \<open>Texts without brackets, ampersands or white space pass the steps unchanged.\<close>

lemma stripTags_plain: "LT \<notin> set s \<Longrightarrow> stripTags s = s"
  by (induction s) auto

lemma replaceEntities_plain: "AMP \<notin> set s \<Longrightarrow> replaceEntities s = s"
  by (induction s) auto

lemma collapseWs_plain_append: "\<forall>c \<in> set a. \<not> isWs c \<Longrightarrow> collapseWs (a @ b) = a @ collapseWs b"
  by (induction a) auto

lemma trimStart_plain: "\<not> startsWithWs s \<Longrightarrow> trimStart s = s"
  by (cases s) (simp_all add: startsWithWs_def trimStart_def)

lemma trimEnd_plain: "\<not> endsWithWs s \<Longrightarrow> trimEnd s = s"
  using trimStart_plain [of "rev s"] by (simp add: endsWithWs_def trimEnd_def trimStart_def)

text \<open>
  Claim C5 as stated fails where the truncation cuts behind a space: of 499 letters, a
  space and one more letter, the first 500 code units are kept, and the last is the space.
\<close>

theorem cleanContent_truncation_counterexample:
  "length longInput = 501
   \<and> cleanContent longInput = 97 # replicate 498 97 @ [32]
   \<and> length (cleanContent longInput) = 500
   \<and> endsWithWs (cleanContent longInput)"
proof -
  have a: "stripTags longInput = longInput"
    by (rule stripTags_plain) (simp add: longInput_def LT_def)
  have b: "replaceEntities longInput = longInput"
    by (rule replaceEntities_plain) (simp add: longInput_def AMP_def)
  have "collapseWs ((97 # replicate 498 97) @ [32, 98]) = (97 # replicate 498 97) @ collapseWs [32, 98]"
    by (rule collapseWs_plain_append) (simp add: isWs_def)
  then have c: "collapseWs longInput = longInput"
    by (simp add: longInput_def isWs_def SP_def)
  have "\<not> startsWithWs longInput" "\<not> endsWithWs longInput"
    by (simp_all add: longInput_def startsWithWs_def endsWithWs_def isWs_def)
  then have d: "trim longInput = longInput"
    by (simp add: trim_def trimStart_plain trimEnd_plain)
  have e: "cleanContent longInput = 97 # replicate 498 97 @ [32]"
    unfolding cleanContent_def a b c d substring0_def by (simp add: longInput_def)
  show ?thesis
    unfolding e by (simp add: longInput_def endsWithWs_def startsWithWs_def isWs_def)
qed

subsection \<open>generateSummary\<close>

lemma splitSentences_first:
  "\<exists>rest. splitSentences s = takeWhile (\<lambda>c. \<not> isSentenceEnd c) s # rest"
proof (cases "dropWhile (\<lambda>c. \<not> isSentenceEnd c) s")
  case Nil
  then have tw: "takeWhile (\<lambda>c. \<not> isSentenceEnd c) s = s"
    by (metis append_Nil2 takeWhile_dropWhile_id)
  have sp: "splitSentences s = [s]"
    by (subst splitSentences.simps) (simp add: Nil del: dropWhile_eq_Nil_conv)
  have "splitSentences s = takeWhile (\<lambda>c. \<not> isSentenceEnd c) s # []"
    by (simp only: tw sp)
  then show ?thesis by blast
next
  case (Cons e rest)
  have "splitSentences s = takeWhile (\<lambda>c. \<not> isSentenceEnd c) s
      # splitSentences (dropWhile isSentenceEnd rest)"
    by (subst splitSentences.simps) (simp add: Cons)
  then show ?thesis by blast
qed

lemma generateSummary_eq_spec: "generateSummary txt = generateSummary_spec txt"
proof -
  obtain rest where "splitSentences txt = takeWhile (\<lambda>c. \<not> isSentenceEnd c) txt # rest"
    using splitSentences_first by blast
  then show ?thesis
    by (auto simp: generateSummary_def generateSummary_spec_def Let_def substring0_def)
qed

text \<open>
  Claim C7. For every input string, \<open>generateSummary\<close> splits the content at full stops,
  exclamation marks and question marks; if the first piece, trimmed, is longer than 20 and
  at most 150 it returns that piece with a full stop appended, otherwise the first 120
  code units of the content followed by three full stops. The output is at most 151 long
  in the first case, at most 123 in the second, and so never longer than 153.
\<close>

theorem generateSummary_refines_spec:
  "generateSummary txt = generateSummary_spec txt
   \<and> length (generateSummary txt) \<le> 153
   \<and> (if 20 < length (trim (takeWhile (\<lambda>c. \<not> isSentenceEnd c) txt))
          \<and> length (trim (takeWhile (\<lambda>c. \<not> isSentenceEnd c) txt)) \<le> 150
       then generateSummary txt = trim (takeWhile (\<lambda>c. \<not> isSentenceEnd c) txt) @ [DOT]
            \<and> length (generateSummary txt) \<le> 151
       else generateSummary txt = take 120 txt @ [DOT, DOT, DOT]
            \<and> length (generateSummary txt) \<le> 123)"
  by (auto simp: generateSummary_eq_spec generateSummary_spec_def Let_def min_def)

text \<open>
  Two summaries: a first sentence of 29 code units ending in an exclamation mark comes
  back with a full stop, and a first sentence of four code units gives the whole short
  text with three full stops.
\<close>

lemma generateSummary_examples:
  "generateSummary [89, 101, 110, 105, 32, 109, 101, 116, 114, 111, 32, 104, 97, 116, 116, 105, 32, 98, 117, 103, 117, 110, 32, 97, 99, 105, 108, 100, 105, 33, 32, 68, 101, 118, 97, 109, 105, 32, 121, 111, 108, 100, 97]
     = [89, 101, 110, 105, 32, 109, 101, 116, 114, 111, 32, 104, 97, 116, 116, 105, 32, 98, 117, 103, 117, 110, 32, 97, 99, 105, 108, 100, 105, 46]"
  "generateSummary [75, 105, 115, 97, 46, 32, 77, 101, 116, 105, 110]
     = [75, 105, 115, 97, 46, 32, 77, 101, 116, 105, 110, 46, 46, 46]"
  by (simp_all add: generateSummary_def splitSentences.simps isSentenceEnd_def DOT_def
        trim_def trimStart_def trimEnd_def isWs_def substring0_def)

subsection \<open>extractTags\<close>

text \<open>
  Lower-casing turns the capital dotted I at the head of the sentence into i followed by
  a combining dot, so the keyword written with the capital letter is not part of it.
\<close>

lemma toLowerCase_tagsInput:
  "toLowerCase tagsInput =
     [105, 775, 115, 116, 97, 110, 98, 117, 108, 39, 100, 97, 32, 35, 109, 101, 116, 114, 111,
      32, 118, 101, 32, 35, 121, 101, 351, 105, 108, 117, 108, 97, 351, 305, 109, 32, 98, 252,
      121, 252, 121, 111, 114]"
  by (simp add: tagsInput_def toLowerCase_def lowerUnit_def)

text \<open>
  Claim C6 on the code. For the sentence of the specification, \<open>extractTags\<close> of the
  service returns Metro, Ye and Ulasim, and \<open>extractTags\<close> of the feed function returns
  Metro, YesilUlasim and Ulasim (in Turkish spelling): neither holds Istanbul or Sehir,
  and the service cuts the second hashtag at its first letter outside ASCII.
\<close>

theorem extractTags_spec_sentence:
  "extractTags tagsInput =
     [[77, 101, 116, 114, 111], [89, 101], [85, 108, 97, 351, 305, 109]]
   \<and> extractTags_rss tagsInput =
     [[77, 101, 116, 114, 111], [89, 101, 351, 105, 108, 85, 108, 97, 351, 305, 109],
      [85, 108, 97, 351, 305, 109]]
   \<and> [304, 115, 116, 97, 110, 98, 117, 108] \<notin> set (extractTags tagsInput)
   \<and> [304, 115, 116, 97, 110, 98, 117, 108] \<notin> set (extractTags_rss tagsInput)
   \<and> [350, 101, 104, 105, 114] \<notin> set (extractTags tagsInput)
   \<and> [350, 101, 104, 105, 114] \<notin> set (extractTags_rss tagsInput)
   \<and> [89, 101, 351, 105, 108, 85, 108, 97, 351, 305, 109] \<notin> set (extractTags tagsInput)"
proof -
  have h1: "matchHashtags isWordChar tagsInput = [[35, 77, 101, 116, 114, 111], [35, 89, 101]]"
    by (simp add: tagsInput_def isWordChar_def HASH_def)
  have h2: "matchHashtags isWordCharTr tagsInput =
      [[35, 77, 101, 116, 114, 111], [35, 89, 101, 351, 105, 108, 85, 108, 97, 351, 305, 109]]"
    by (simp add: tagsInput_def isWordCharTr_def isWordChar_def HASH_def)
  have a: "extractTags tagsInput =
      [[77, 101, 116, 114, 111], [89, 101], [85, 108, 97, 351, 305, 109]]"
    by (simp add: extractTags_def extractTagsWith_def h1 toLowerCase_tagsInput
          keywords_service_def newSet_def setInsert_def)
  have b: "extractTags_rss tagsInput =
      [[77, 101, 116, 114, 111], [89, 101, 351, 105, 108, 85, 108, 97, 351, 305, 109],
       [85, 108, 97, 351, 305, 109]]"
    by (simp add: extractTags_rss_def extractTagsWith_def h2 toLowerCase_tagsInput
          keywords_rss_def newSet_def setInsert_def)
  show ?thesis unfolding a b by simp
qed

section \<open>The aggregation cache\<close>

lemma fresh_hit:
  assumes "cache s cacheKey = Some c" and "nowAtCheck e - timestamp c < 300000"
  shows "getAllPostsWith mock e s = (data c, s)"
  using assms by (simp add: getAllPostsWith_def CACHE_DURATION_def)

text \<open>
  Claim C1. For every cache state in which the entry \<open>all_posts\<close> exists and the current
  time minus its time stamp is strictly less than five minutes, \<open>getAllPosts\<close> returns
  the data of that entry unchanged, sends no request to either adapter, and leaves the
  cache entry, like the whole state, as it was.
\<close>

theorem getAllPosts_cache_hit:
  assumes "cache s cacheKey = Some c" and "nowAtCheck e - timestamp c < 5 * 60 * 1000"
  shows "fst (getAllPosts e s) = data c
       \<and> requests (snd (getAllPosts e s)) = requests s
       \<and> cache (snd (getAllPosts e s)) = cache s
       \<and> snd (getAllPosts e s) = s"
  using assms by (simp add: getAllPosts_def fresh_hit)

text \<open>An entry written one minute before the check, with both adapters ready to answer.\<close>

theorem getAllPosts_cache_hit_witness:
  "fst (getAllPosts envBoth stateFresh) = [postJan]
   \<and> requests (snd (getAllPosts envBoth stateFresh)) = []
   \<and> snd (getAllPosts envBoth stateFresh) = stateFresh"
  using getAllPosts_cache_hit [of stateFresh "\<lparr>data = [postJan], timestamp = 1736951340000\<rparr>" envBoth]
  by (simp add: stateFresh_def envBoth_def)

lemma no_data_with_cache:
  assumes "cache s cacheKey = Some c"
    and "fetchRealTwitterData (twitterFetch e) = []"
    and "fetchRealRSSFeeds (rssFetch e) = []"
  shows "fst (getAllPostsWith mock e s) = data c \<and> cache (snd (getAllPostsWith mock e s)) = cache s"
  using assms by (simp add: getAllPostsWith_def Let_def)

text \<open>
  Claim C2. For every invocation of \<open>getAllPosts\<close> in which both adapters together
  contribute no post while a cache entry exists, fresh or stale, the call returns the data
  of that entry, not the placeholder posts, and the cache is left unchanged.
\<close>

theorem getAllPosts_failed_refresh_keeps_cache:
  assumes "cache s cacheKey = Some c"
    and "fetchRealTwitterData (twitterFetch e) = []"
    and "fetchRealRSSFeeds (rssFetch e) = []"
  shows "fst (getAllPosts e s) = data c \<and> cache (snd (getAllPosts e s)) = cache s"
  using assms by (simp add: getAllPosts_def no_data_with_cache)

text \<open>Every fetch rejected, over an entry ten minutes old and over one a minute old.\<close>

theorem getAllPosts_failed_refresh_keeps_cache_witness:
  "fst (getAllPosts envAllFail stateStale) = [postJan]
   \<and> cache (snd (getAllPosts envAllFail stateStale)) = cache stateStale
   \<and> fst (getAllPosts envAllFail stateFresh) = [postJan]
   \<and> cache (snd (getAllPosts envAllFail stateFresh)) = cache stateFresh"
  using getAllPosts_failed_refresh_keeps_cache
          [of stateStale "\<lparr>data = [postJan], timestamp = 1736950800000\<rparr>" envAllFail]
        getAllPosts_failed_refresh_keeps_cache
          [of stateFresh "\<lparr>data = [postJan], timestamp = 1736951340000\<rparr>" envAllFail]
  by (simp add: stateStale_def stateFresh_def envAllFail_def fetchRealTwitterData_def
        fetchRealRSSFeeds_def)

subsection \<open>The sort\<close>

lemma mset_insertSorted: "mset (insertSorted cmp x ys) = add_mset x (mset ys)"
  by (induction ys) simp_all

lemma mset_arraySort: "mset (arraySort cmp xs) = mset xs"
  unfolding arraySort_def by (induction xs) (simp_all add: mset_insertSorted)

lemma set_insertSorted: "set (insertSorted cmp x ys) = insert x (set ys)"
  by (induction ys) auto

lemma insertSorted_insort_key:
  assumes "getTime parse x \<noteq> None" and "\<forall>y \<in> set ys. getTime parse y \<noteq> None"
  shows "insertSorted (compareFn parse) x ys = insort_key (\<lambda>p. - the (getTime parse p)) x ys"
  using assms
  by (induction ys) (auto simp: sortCompare_def compareFn_def split: option.splits)

lemma arraySort_sort_key:
  assumes "\<forall>p \<in> set xs. getTime parse p \<noteq> None"
  shows "arraySort (compareFn parse) xs = sort_key (\<lambda>p. - the (getTime parse p)) xs"
  using assms
proof (induction xs)
  case Nil
  then show ?case by (simp add: arraySort_def)
next
  case (Cons x xs)
  then have ih: "foldr (insertSorted (compareFn parse)) xs [] = sort_key (\<lambda>p. - the (getTime parse p)) xs"
    by (simp add: arraySort_def)
  have "\<forall>y \<in> set (sort_key (\<lambda>p. - the (getTime parse p)) xs). getTime parse y \<noteq> None"
    using Cons.prems by simp
  with Cons.prems ih show ?case
    by (simp add: arraySort_def insertSorted_insort_key sort_key_def[symmetric])
qed

lemma newestFirst_sort_key:
  assumes "\<forall>p \<in> set xs. getTime parse p \<noteq> None"
  shows "newestFirst parse (sort_key (\<lambda>p. - the (getTime parse p)) xs)"
proof -
  let ?f = "\<lambda>p. - the (getTime parse p)"
  have "sorted (map ?f (sort_key ?f xs))" by (rule sorted_sort_key)
  then have "sorted_wrt (\<lambda>a b. ?f a \<le> ?f b) (sort_key ?f xs)"
    by (simp add: sorted_map)
  moreover have "\<forall>p \<in> set (sort_key ?f xs). epochZeroTime parse p = the (getTime parse p)"
    using assms by (auto simp: epochZeroTime_def split: option.splits)
  ultimately show ?thesis
    unfolding newestFirst_def by (auto elim!: sorted_wrt_mono_rel[rotated])
qed

lemma refresh_with_data:
  assumes "\<forall>c. cache s cacheKey = Some c \<longrightarrow> \<not> nowAtCheck e - timestamp c < 300000"
    and "fetchRealTwitterData (twitterFetch e) @ fetchRealRSSFeeds (rssFetch e) \<noteq> []"
  shows "getAllPostsWith mock e s =
     (arraySort (compareFn (parseDate e))
        (fetchRealTwitterData (twitterFetch e) @ fetchRealRSSFeeds (rssFetch e)),
      \<lparr>cache = (cache s)(cacheKey \<mapsto>
          \<lparr>data = arraySort (compareFn (parseDate e))
             (fetchRealTwitterData (twitterFetch e) @ fetchRealRSSFeeds (rssFetch e)),
           timestamp = nowAtStore e\<rparr>),
       requests = requests s @ [TwitterFunction, RssFunction]\<rparr>)"
  using assms
  by (cases "cache s cacheKey")
     (auto simp: getAllPostsWith_def Let_def CACHE_DURATION_def)

text \<open>
  Claim C4, amended. For every invocation of \<open>getAllPosts\<close> that finds no fresh cache
  entry and in which the concatenated adapter outputs are non-empty, the returned list is
  a rearrangement of the concatenation, and the cache entry is overwritten with exactly
  this list and the current time; when moreover the \<open>date + ' ' + time\<close> of every post
  parses, the returned list is the concatenation sorted stably in descending order of the
  parsed time stamp. (A post whose time stamp does not parse is not ranked as time 0.)
\<close>

theorem getAllPosts_refresh_sorted:
  assumes miss: "\<forall>c. cache s cacheKey = Some c \<longrightarrow> \<not> nowAtCheck e - timestamp c < 5 * 60 * 1000"
    and posts: "posts = fetchRealTwitterData (twitterFetch e) @ fetchRealRSSFeeds (rssFetch e)"
    and nonempty: "posts \<noteq> []"
  shows "mset (fst (getAllPosts e s)) = mset posts
       \<and> cache (snd (getAllPosts e s)) =
           (cache s)(cacheKey \<mapsto> \<lparr>data = fst (getAllPosts e s), timestamp = nowAtStore e\<rparr>)
       \<and> ((\<forall>p \<in> set posts. getTime (parseDate e) p \<noteq> None) \<longrightarrow>
            fst (getAllPosts e s) = sort_key (\<lambda>p. - the (getTime (parseDate e) p)) posts
            \<and> newestFirst (parseDate e) (fst (getAllPosts e s)))"
proof -
  from miss have miss': "\<forall>c. cache s cacheKey = Some c \<longrightarrow> \<not> nowAtCheck e - timestamp c < 300000"
    by simp
  from nonempty posts
  have ne: "fetchRealTwitterData (twitterFetch e) @ fetchRealRSSFeeds (rssFetch e) \<noteq> []"
    by simp
  have res: "getAllPosts e s =
     (arraySort (compareFn (parseDate e)) posts,
      \<lparr>cache = (cache s)(cacheKey \<mapsto>
          \<lparr>data = arraySort (compareFn (parseDate e)) posts, timestamp = nowAtStore e\<rparr>),
       requests = requests s @ [TwitterFunction, RssFunction]\<rparr>)"
    unfolding getAllPosts_def posts by (rule refresh_with_data [OF miss' ne])
  show ?thesis
    by (simp add: res mset_arraySort arraySort_sort_key newestFirst_sort_key)
qed

text \<open>
  A stale entry, the January post from twitter and the February post from the feeds: the
  February post comes first, and the cache holds that list with the time of the write.
\<close>

theorem getAllPosts_refresh_sorted_witness:
  "fst (getAllPosts envBoth stateStale) = [postFeb, postJan]
   \<and> cache (snd (getAllPosts envBoth stateStale)) cacheKey =
        Some \<lparr>data = [postFeb, postJan], timestamp = 1736951400250\<rparr>
   \<and> newestFirst parseTwo (fst (getAllPosts envBoth stateStale))"
proof -
  have posts: "[postJan, postFeb] =
      fetchRealTwitterData (twitterFetch envBoth) @ fetchRealRSSFeeds (rssFetch envBoth)"
    by (simp add: envBoth_def fetchRealTwitterData_def fetchRealRSSFeeds_def)
  have miss: "\<forall>c. cache stateStale cacheKey = Some c \<longrightarrow>
      \<not> nowAtCheck envBoth - timestamp c < 5 * 60 * 1000"
    by (simp add: stateStale_def envBoth_def)
  have parsable: "\<forall>p \<in> set [postJan, postFeb]. getTime (parseDate envBoth) p \<noteq> None"
    by (simp add: envBoth_def getTime_def parseTwo_def postJan_def postFeb_def SP_def)
  have key: "sort_key (\<lambda>p. - the (getTime (parseDate envBoth) p)) [postJan, postFeb] = [postFeb, postJan]"
    by (simp add: envBoth_def getTime_def parseTwo_def postJan_def postFeb_def SP_def)
  have pd: "parseDate envBoth = parseTwo" and st: "nowAtStore envBoth = 1736951400250"
    by (simp_all add: envBoth_def)
  have ne: "[postJan, postFeb] \<noteq> []" by simp
  note inst = getAllPosts_refresh_sorted [OF miss posts ne]
  from inst parsable
  have r: "fst (getAllPosts envBoth stateStale) =
      sort_key (\<lambda>p. - the (getTime (parseDate envBoth) p)) [postJan, postFeb]"
    and n: "newestFirst (parseDate envBoth) (fst (getAllPosts envBoth stateStale))"
    by blast+
  from inst have c: "cache (snd (getAllPosts envBoth stateStale)) =
      (cache stateStale)(cacheKey \<mapsto>
         \<lparr>data = fst (getAllPosts envBoth stateStale), timestamp = nowAtStore envBoth\<rparr>)"
    by blast
  from r key have r': "fst (getAllPosts envBoth stateStale) = [postFeb, postJan]"
    by (simp only:)
  from n pd have n': "newestFirst parseTwo (fst (getAllPosts envBoth stateStale))"
    by (simp only:)
  from c r' st have c': "cache (snd (getAllPosts envBoth stateStale)) cacheKey =
        Some \<lparr>data = [postFeb, postJan], timestamp = 1736951400250\<rparr>"
    by simp
  from r' n' c' show ?thesis by blast
qed

text \<open>
  Claim C4 as stated fails for a post without a parsable time stamp: the comparator gives
  NaN for it against the January post, the sort reads that as a tie and keeps the
  undated post in front, whereas with time 0 it would have to come last.
\<close>

theorem getAllPosts_undated_counterexample:
  "fetchRealTwitterData (twitterFetch envUndated) @ fetchRealRSSFeeds (rssFetch envUndated)
     = [postUndated, postJan]
   \<and> getTime parseTwo postUndated = None
   \<and> epochZeroTime parseTwo postUndated = 0
   \<and> epochZeroTime parseTwo postJan = 1736951400000
   \<and> fst (getAllPosts envUndated stateEmpty) = [postUndated, postJan]
   \<and> \<not> newestFirst parseTwo (fst (getAllPosts envUndated stateEmpty))"
proof -
  have t1: "getTime parseTwo postUndated = None"
    by (simp add: getTime_def parseTwo_def postUndated_def SP_def)
  have t2: "getTime parseTwo postJan = Some 1736951400000"
    by (simp add: getTime_def parseTwo_def postJan_def SP_def)
  have f: "fetchRealTwitterData (twitterFetch envUndated) @ fetchRealRSSFeeds (rssFetch envUndated)
     = [postUndated, postJan]"
    by (simp add: envUndated_def fetchRealTwitterData_def fetchRealRSSFeeds_def)
  have s: "arraySort (compareFn parseTwo) [postUndated, postJan] = [postUndated, postJan]"
    by (simp add: arraySort_def sortCompare_def compareFn_def t1 t2)
  have r: "fst (getAllPosts envUndated stateEmpty) = [postUndated, postJan]"
    using s
    by (simp add: getAllPosts_def getAllPostsWith_def Let_def stateEmpty_def envUndated_def
          fetchRealTwitterData_def fetchRealRSSFeeds_def)
  show ?thesis
    by (simp add: f r t1 t2 newestFirst_def epochZeroTime_def)
qed

subsection \<open>The fallback without a cache\<close>

text \<open>
  Claim C3 on the code. With no cache entry and every fetch rejected, \<open>getAllPosts\<close> of
  \<open>socialMediaService.ts\<close> returns the eight sample posts of its \<open>getMockData\<close>, whose
  categories are Ulasim, Egitim, Cevre, Politika, Kultur, Sosyal, Spor and Ekonomi; none
  of them is in the category Sistem.
\<close>

theorem getAllPosts_fallback_is_sample_content:
  "cache stateEmpty cacheKey = None
   \<and> fetchRealTwitterData (twitterFetch envAllFail) = []
   \<and> fetchRealRSSFeeds (rssFetch envAllFail) = []
   \<and> fst (getAllPosts envAllFail stateEmpty) = getMockData clockJan
   \<and> length (getMockData clockJan) = 8
   \<and> map category (getMockData clockJan) =
       [Some [85, 108, 97, 351, 305, 109], Some [69, 287, 105, 116, 105, 109],
        Some [199, 101, 118, 114, 101], Some [80, 111, 108, 105, 116, 105, 107, 97],
        Some [75, 252, 108, 116, 252, 114], Some [83, 111, 115, 121, 97, 108],
        Some [83, 112, 111, 114], Some [69, 107, 111, 110, 111, 109, 105]]
   \<and> Some Sistem \<notin> set (map category (fst (getAllPosts envAllFail stateEmpty)))"
proof -
  have r: "fst (getAllPosts envAllFail stateEmpty) = getMockData clockJan"
    by (simp add: getAllPosts_def getAllPostsWith_def Let_def stateEmpty_def envAllFail_def
          fetchRealTwitterData_def fetchRealRSSFeeds_def)
  have c: "map category (getMockData clockJan) =
       [Some [85, 108, 97, 351, 305, 109], Some [69, 287, 105, 116, 105, 109],
        Some [199, 101, 118, 114, 101], Some [80, 111, 108, 105, 116, 105, 107, 97],
        Some [75, 252, 108, 116, 252, 114], Some [83, 111, 115, 121, 97, 108],
        Some [83, 112, 111, 114], Some [69, 107, 111, 110, 111, 109, 105]]"
    by (simp add: getMockData_def)
  have l: "length (getMockData clockJan) = 8"
    by (simp add: getMockData_def)
  show ?thesis
    unfolding r c l
    by (simp add: stateEmpty_def envAllFail_def fetchRealTwitterData_def fetchRealRSSFeeds_def
          Sistem_def)
qed

text \<open>
  The second copy of the service does return the two system messages in that situation,
  both in the category Sistem.
\<close>

lemma part_001_fallback_is_system_message:
  assumes "cache s cacheKey = None"
    and "fetchRealTwitterData (twitterFetch e) = []"
    and "fetchRealRSSFeeds (rssFetch e) = []"
  shows "fst (getAllPosts_part_001 e s) = getMockData_part_001 (mockClock e)
       \<and> getMockData_part_001 (mockClock e) \<noteq> []
       \<and> map category (getMockData_part_001 (mockClock e)) = [Some Sistem, Some Sistem]"
  using assms
  by (simp add: getAllPosts_part_001_def getAllPostsWith_def Let_def getMockData_part_001_def
        Sistem_def)

end
